theory Spec2Isabelle
  imports Complex_Main "HOL-Library.AList"
begin

section \<open>The availability computation of \<open>src/App.tsx\<close>\<close>

text \<open>
  The development follows \<open>processCalendarData\<close> and its helpers in \<open>src/App.tsx\<close>,
  with the constants of \<open>constants.tsx\<close>.

  Conventions of the embedding:
  \<^item> A JavaScript number is \<open>NaN\<close> or an exact rational (type \<open>number\<close>); rounding and the
    infinities are not modelled. An instant (\<open>Date.getTime()\<close> of a valid date) is an
    \<open>int\<close> of milliseconds since the epoch.
  \<^item> A civil date (\<open>YYYY-MM-DD\<close>, the key of \<open>dailyAvailabilityMap\<close>) is its day number.
  \<^item> Strings are lists of ASCII characters; \<open>trim\<close> and \<open>toLowerCase\<close> act on ASCII.
  \<^item> A JavaScript object used as a dictionary is a map, or an association list in insertion
    order where \<open>Object.values\<close> or \<open>Object.entries\<close> read it back. Reading a key of such an
    object also finds the properties inherited from \<open>Object.prototype\<close>, and the
    enumeration puts the keys that are array indices first.
  \<^item> What the browser provides (time-zone database, locale collation, the conversion
    \<open>Number\<close> of a string) is a parameter, the record \<open>env\<close>.
  \<^item> The variables that the callback declares are part of the state, as in an imperative
    semantics: before an invocation declares them they hold what the last one left.
\<close>

subsection \<open>Numbers\<close>

datatype number = NaN | Num rat

fun n_add :: "number \<Rightarrow> number \<Rightarrow> number" where
  "n_add (Num a) (Num b) = Num (a + b)"
| "n_add _ _ = NaN"

fun n_sub :: "number \<Rightarrow> number \<Rightarrow> number" where
  "n_sub (Num a) (Num b) = Num (a - b)"
| "n_sub _ _ = NaN"

fun n_mul :: "number \<Rightarrow> number \<Rightarrow> number" where
  "n_mul (Num a) (Num b) = Num (a * b)"
| "n_mul _ _ = NaN"

text \<open>\<open>0 / 0\<close> is \<open>NaN\<close>. A nonzero number over 0 is an infinity in JavaScript; it does not
  occur here: the constant divisors are not 0, and the one variable divisor, the buffer
  factor, divides a multiple of itself.\<close>

fun n_div :: "number \<Rightarrow> number \<Rightarrow> number" where
  "n_div (Num a) (Num b) = (if b = 0 then NaN else Num (a / b))"
| "n_div _ _ = NaN"

text \<open>\<open>Math.max\<close> and \<open>Math.min\<close> of two numbers: \<open>NaN\<close> if either is.\<close>

fun Math_max :: "number \<Rightarrow> number \<Rightarrow> number" where
  "Math_max (Num a) (Num b) = Num (max a b)"
| "Math_max _ _ = NaN"

fun Math_min :: "number \<Rightarrow> number \<Rightarrow> number" where
  "Math_min (Num a) (Num b) = Num (min a b)"
| "Math_min _ _ = NaN"

text \<open>The comparisons \<open><=\<close>, \<open><\<close>, \<open>>=\<close>, \<open>>\<close>: false if either side is \<open>NaN\<close>.\<close>

fun n_le :: "number \<Rightarrow> number \<Rightarrow> bool" where
  "n_le (Num a) (Num b) = (a \<le> b)"
| "n_le _ _ = False"

fun n_lt :: "number \<Rightarrow> number \<Rightarrow> bool" where
  "n_lt (Num a) (Num b) = (a < b)"
| "n_lt _ _ = False"

definition n_ge :: "number \<Rightarrow> number \<Rightarrow> bool" where
  "n_ge a b = n_le b a"

definition n_gt :: "number \<Rightarrow> number \<Rightarrow> bool" where
  "n_gt a b = n_lt b a"

subsection \<open>Data model (\<open>src/types.ts\<close>)\<close>

type_synonym instant = int
type_synonym ymd = int

datatype CalendarCategory = Inactive | Fungible | Task

record GoogleCalendar =
  calId :: string
  calSummary :: string
  backgroundColor :: string

text \<open>\<open>start.dateTime\<close> and \<open>end.dateTime\<close> are optional; an all-day event has none.
  A missing \<open>summary\<close> is \<open>None\<close>.\<close>

record GoogleCalendarEvent =
  evId :: string
  evSummary :: "string option"
  startDateTime :: "instant option"
  endDateTime :: "instant option"

text \<open>An element of \<open>relevantEvents\<close>: the event with \<open>__calendarId\<close> and
  \<open>__calendarCategory\<close>.\<close>

record RelevantEvent =
  event :: GoogleCalendarEvent
  calendarId :: string
  calendarCategory :: CalendarCategory

text \<open>The four times are the strings of the time fields (\<open>HH:MM\<close>, or empty when a field
  is cleared).\<close>

record TimeConfig =
  startDate :: ymd
  endDate :: ymd
  weekdayStartTime :: string
  weekdayEndTime :: string
  weekendStartTime :: string
  weekendEndTime :: string
  timezone :: string
  timeBufferFactor :: rat

text \<open>What \<open>getProjectColor\<close> returns is typed \<open>string\<close> in the source; at run time it
  is an entry of the palette or, for a name that \<open>Object.prototype\<close> defines, the inherited
  property of that name (a function).\<close>

datatype color = Color string | Inherited string

record DailyAvailability =
  date :: ymd
  availableHours :: number
  totalHours :: number

record ProjectTask =
  project :: string
  task :: string
  hours :: rat
  color :: color

record ProjectSummary =
  psProject :: string
  psTotalHours :: rat
  psColor :: color

record FungibleEntry =
  calendarSummary :: string
  feTotalHours :: number
  feColor :: color

record FungibleTimeSummary =
  fsCalendarSummary :: string
  fsTotalHours :: number
  fsColor :: color
  fsProject :: string

datatype impactType = reduces_available | task_tracked | ignored

record DailyEventDetail =
  dedSummary :: string
  calendarName :: string
  category :: CalendarCategory
  startTime :: string
  endTime :: string
  duration :: rat
  impact :: impactType

record DailyDetails =
  ddDate :: ymd
  events :: "DailyEventDetail list"

record ProcessedData =
  dailyAvailability :: "DailyAvailability list"
  projectTasks :: "ProjectTask list"
  projectSummaries :: "ProjectSummary list"
  fungibleTimeSummary :: "FungibleTimeSummary list"
  dailyDetails :: "DailyDetails list"

text \<open>The entries of \<open>dailyAvailabilityMap\<close>.\<close>

record DayCapacity =
  availableMinutes :: number
  totalMinutes :: number
  fungibleMinutes :: number
  taskMinutes :: number

subsection \<open>Constants (\<open>constants.tsx\<close>)\<close>

definition PROJECT_COLORS :: "string list" where
  "PROJECT_COLORS =
    [''#FF6384'', ''#36A2EB'', ''#FFCE56'', ''#4BC0C0'', ''#9966FF'', ''#FF9F40'',
     ''#E74C3C'', ''#8E44AD'', ''#2ECC71'', ''#F1C40F'', ''#3498DB'', ''#1ABC9C'']"

definition TASK_CALENDAR_BLOCK_KEYWORDS :: "string list" where
  "TASK_CALENDAR_BLOCK_KEYWORDS = [''block'', ''new event'']"

subsection \<open>The browser environment\<close>

text \<open>
  \<^item> \<open>zoneDate tz t\<close>: the civil date of instant \<open>t\<close> in zone \<open>tz\<close>
    (\<open>Intl.DateTimeFormat('en-CA', {timeZone})\<close>, \<open>toLocaleDateString('en-CA', {timeZone})\<close>);
  \<^item> \<open>zoneClock tz t\<close>: the text of hour and minute of \<open>t\<close> in zone \<open>tz\<close>
    (\<open>toLocaleString('en-US', {timeZone, hour12: false, hour, minute})\<close>);
  \<^item> \<open>getDay t\<close>: \<open>Date.prototype.getDay\<close>, the weekday of \<open>t\<close> in the browser's own
    zone, 0 for Sunday;
  \<^item> \<open>localNoon d\<close>: \<open>new Date(d + 'T12:00:00')\<close>, noon of the civil date \<open>d\<close> in the
    browser's own zone;
  \<^item> \<open>localeCompare\<close>: \<open>String.prototype.localeCompare\<close>;
  \<^item> \<open>jsNumber s\<close>: \<open>Number(s)\<close>.
\<close>

record env =
  zoneDate :: "string \<Rightarrow> instant \<Rightarrow> ymd"
  zoneClock :: "string \<Rightarrow> instant \<Rightarrow> string"
  getDay :: "instant \<Rightarrow> nat"
  localNoon :: "ymd \<Rightarrow> instant"
  localeCompare :: "string \<Rightarrow> string \<Rightarrow> int"
  jsNumber :: "string \<Rightarrow> number"

subsection \<open>Strings\<close>

text \<open>\<open>String.prototype.split\<close> with a one-character separator: all the pieces.\<close>

fun split :: "char \<Rightarrow> string \<Rightarrow> string list" where
  "split sep [] = [[]]"
| "split sep (c # cs) =
     (if c = sep then [] # split sep cs
      else (case split sep cs of [] \<Rightarrow> [[c]] | p # ps \<Rightarrow> (c # p) # ps))"

text \<open>\<open>s.split(sep, limit)\<close> keeps the first \<open>limit\<close> pieces and drops the others.\<close>

definition splitLimit :: "char \<Rightarrow> nat \<Rightarrow> string \<Rightarrow> string list" where
  "splitLimit sep limit s = take limit (split sep s)"

definition isSpace :: "char \<Rightarrow> bool" where
  "isSpace c = (c \<in> set [CHR '' '', CHR 0x09, CHR 0x0A, CHR 0x0B, CHR 0x0C, CHR 0x0D])"

definition trim :: "string \<Rightarrow> string" where
  "trim s = rev (dropWhile isSpace (rev (dropWhile isSpace s)))"

definition toLowerChar :: "char \<Rightarrow> char" where
  "toLowerChar c =
     (case map_of (zip ''ABCDEFGHIJKLMNOPQRSTUVWXYZ'' ''abcdefghijklmnopqrstuvwxyz'') c of
        None \<Rightarrow> c | Some l \<Rightarrow> l)"

definition toLowerCase :: "string \<Rightarrow> string" where
  "toLowerCase s = map toLowerChar s"

fun startsWith :: "string \<Rightarrow> string \<Rightarrow> bool" where
  "startsWith s [] = True"
| "startsWith [] (k # ks) = False"
| "startsWith (c # cs) (k # ks) = (c = k \<and> startsWith cs ks)"

fun includes_str :: "string \<Rightarrow> string \<Rightarrow> bool" where
  "includes_str [] k = (k = [])"
| "includes_str (c # cs) k = (startsWith (c # cs) k \<or> includes_str cs k)"

text \<open>\<open>x || d\<close> on an optional string: a missing and an empty string are both falsy.\<close>

definition orElse :: "string option \<Rightarrow> string \<Rightarrow> string" where
  "orElse x d = (case x of None \<Rightarrow> d | Some s \<Rightarrow> if s = [] then d else s)"

text \<open>The value of a string of decimal digits.\<close>

definition digitValue :: "char \<Rightarrow> nat option" where
  "digitValue c = map_of (zip ''0123456789'' [0, 1, 2, 3, 4, 5, 6, 7, 8, 9]) c"

fun decimalValue :: "nat \<Rightarrow> string \<Rightarrow> nat option" where
  "decimalValue acc [] = Some acc"
| "decimalValue acc (c # cs) =
     (case digitValue c of None \<Rightarrow> None | Some d \<Rightarrow> decimalValue (acc * 10 + d) cs)"

subsection \<open>Plain objects as dictionaries\<close>

text \<open>The properties that every plain object inherits from \<open>Object.prototype\<close>. Each is a
  function or an object, hence truthy: a test \<open>!dict[key]\<close> fails for these keys although
  the dictionary has no such entry, and \<open>dict[key]\<close> is the inherited property.\<close>

definition objectPrototypeNames :: "string list" where
  "objectPrototypeNames =
     [''constructor'', ''__defineGetter__'', ''__defineSetter__'', ''hasOwnProperty'',
      ''__lookupGetter__'', ''__lookupSetter__'', ''isPrototypeOf'', ''propertyIsEnumerable'',
      ''toString'', ''valueOf'', ''__proto__'', ''toLocaleString'']"

definition inherited :: "string \<Rightarrow> bool" where
  "inherited k = (k \<in> set objectPrototypeNames)"

text \<open>A key is an array index when it is the decimal text, without leading zeros, of a
  number below \<open>2^32 - 1\<close>. \<open>Object.values\<close> and \<open>Object.entries\<close> list the array indices
  first, in ascending order, then the other keys in insertion order.\<close>

definition arrayIndex :: "string \<Rightarrow> nat option" where
  "arrayIndex k =
     (if k = [] \<or> (hd k = CHR ''0'' \<and> tl k \<noteq> []) then None
      else case decimalValue 0 k of
             None \<Rightarrow> None
           | Some n \<Rightarrow> if n < 4294967295 then Some n else None)"

definition ownEntries :: "(string \<times> 'a) list \<Rightarrow> (string \<times> 'a) list" where
  "ownEntries al =
     sort_key (\<lambda>(k, v). case arrayIndex k of None \<Rightarrow> 0 | Some n \<Rightarrow> n)
       (filter (\<lambda>(k, v). arrayIndex k \<noteq> None) al)
     @ filter (\<lambda>(k, v). arrayIndex k = None) al"

subsection \<open>Helpers\<close>

definition formatDateToYMD :: "env \<Rightarrow> instant \<Rightarrow> string \<Rightarrow> ymd" where
  "formatDateToYMD e d tz = zoneDate e tz d"

text \<open>\<open>getDatesInRange\<close>: the loop \<open>while (currentDate <= endDate)\<close> pushes the current
  date and moves \<open>currentDate\<close> one civil day on. Both dates sit at local noon, so the
  comparison of instants is the comparison of civil dates.\<close>

function datesFrom :: "ymd \<Rightarrow> ymd \<Rightarrow> ymd list" where
  "datesFrom currentDate lastDate =
     (if currentDate \<le> lastDate then currentDate # datesFrom (currentDate + 1) lastDate else [])"
  by pat_completeness auto
termination
  by (relation "measure (\<lambda>(c, e). nat (e + 1 - c))") auto

declare datesFrom.simps [simp del]

definition getDatesInRange :: "env \<Rightarrow> ymd \<Rightarrow> ymd \<Rightarrow> string \<Rightarrow> instant list" where
  "getDatesInRange e startDateStr endDateStr tz = map (localNoon e) (datesFrom startDateStr endDateStr)"

text \<open>
  \<^verbatim>\<open>const [hours, minutes] = timeStr.split(':').map(Number);
  return hours * 60 + minutes;\<close>
  With a single piece \<open>minutes\<close> is \<open>undefined\<close> and the sum is \<open>NaN\<close>: so it is for the
  empty string of a cleared time field. Pieces after the second are ignored.
\<close>

definition parseTimeToMinutes :: "env \<Rightarrow> string \<Rightarrow> number" where
  "parseTimeToMinutes e timeStr =
     (case map (jsNumber e) (split (CHR '':'') timeStr) of
        [] \<Rightarrow> NaN
      | [h] \<Rightarrow> NaN
      | h # m # _ \<Rightarrow> n_add (n_mul h (Num 60)) m)"

text \<open>\<open>calculateWorkHoursOverlap\<close>. The work boundary \<open>Date\<close> objects that the source
  builds first are never read; the result is computed from the clock minutes.\<close>

definition calculateWorkHoursOverlap ::
  "env \<Rightarrow> instant \<Rightarrow> instant \<Rightarrow> string \<Rightarrow> string \<Rightarrow> string \<Rightarrow> number" where
  "calculateWorkHoursOverlap e eventStart eventEnd workStartTime workEndTime tz =
     (let eventDateStr = formatDateToYMD e eventStart tz;
          eventStartTime = zoneClock e tz eventStart;
          eventEndTime = zoneClock e tz eventEnd;
          eventStartMinutes = parseTimeToMinutes e eventStartTime;
          eventEndMinutes = parseTimeToMinutes e eventEndTime;
          workStartMinutes = parseTimeToMinutes e workStartTime;
          workEndMinutes = parseTimeToMinutes e workEndTime;
          eventDateInTZ = zoneDate e tz eventStart
      in if eventDateInTZ \<noteq> eventDateStr then Num 0
         else let overlapStart = Math_max eventStartMinutes workStartMinutes;
                  overlapEnd = Math_min eventEndMinutes workEndMinutes
              in if n_ge overlapStart overlapEnd then Num 0 else n_sub overlapEnd overlapStart)"

definition isWeekend :: "env \<Rightarrow> instant \<Rightarrow> bool" where
  "isWeekend e d = (let day = getDay e d in day = 0 \<or> day = 6)"

subsection \<open>Project and task of an event summary\<close>

text \<open>
  \<^verbatim>\<open>let project = "Unassigned";
  let task = event.summary || "Unnamed Task";
  if (event.summary?.includes(':')) {
      [project, task] = event.summary.split(':', 2).map(s => s.trim());
  } else if (event.summary) {
      project = event.summary;
  }\<close>
  The destructuring reads elements 0 and 1; a summary with a colon always has both, the
  other cases of the \<open>case\<close> are never reached.
\<close>

definition parseProjectTask :: "string option \<Rightarrow> string \<times> string" where
  "parseProjectTask summary =
     (let proj = ''Unassigned'';
          tsk = orElse summary ''Unnamed Task''
      in case summary of
           None \<Rightarrow> (proj, tsk)
         | Some s \<Rightarrow>
             if includes_str s '':'' then
               (case map trim (splitLimit (CHR '':'') 2 s) of
                  p # t # _ \<Rightarrow> (p, t)
                | [p] \<Rightarrow> (p, tsk)
                | [] \<Rightarrow> (proj, tsk))
             else if s \<noteq> [] then (s, tsk)
             else (proj, tsk))"

subsection \<open>The aggregation pass\<close>

text \<open>The variables that \<open>processCalendarData\<close> declares for the pass over the events:
  the five maps and the counter of \<open>getProjectColor\<close>.\<close>

record Aggregates =
  dailyAvailabilityMap :: "ymd \<rightharpoonup> DayCapacity"
  projectTaskMap :: "(string \<times> ProjectTask) list"
  fungibleTimeMap :: "(string \<times> FungibleEntry) list"
  dailyDetailsMap :: "ymd \<rightharpoonup> DailyEventDetail list"
  projectColorMap :: "string \<rightharpoonup> string"
  nextColorIndex :: nat

text \<open>
  \<^verbatim>\<open>if (!projectColorMap[project]) {
    projectColorMap[project] = PROJECT_COLORS[nextColorIndex % PROJECT_COLORS.length];
    nextColorIndex++;
  }
  return projectColorMap[project];\<close>
  For a name that \<open>Object.prototype\<close> defines the test finds the inherited property:
  nothing is allocated and the inherited property is returned.
\<close>

definition getProjectColor :: "Aggregates \<Rightarrow> string \<Rightarrow> color \<times> Aggregates" where
  "getProjectColor st p =
     (if inherited p then (Inherited p, st)
      else case projectColorMap st p of
             Some c \<Rightarrow> (Color c, st)
           | None \<Rightarrow>
               (let c = PROJECT_COLORS ! (nextColorIndex st mod length PROJECT_COLORS)
                in (Color c, st\<lparr>projectColorMap := (projectColorMap st)(p \<mapsto> c),
                                nextColorIndex := nextColorIndex st + 1\<rparr>)))"

text \<open>The work hours of the day of an instant, chosen by \<open>isWeekend\<close>: the source writes
  this selection out twice, for a date of the range and for the start of an event.\<close>

definition dayWorkHours :: "env \<Rightarrow> TimeConfig \<Rightarrow> instant \<Rightarrow> string \<times> string" where
  "dayWorkHours e timeConfig d =
     (let isWeekendDay = isWeekend e d;
          dayStartTime = (if isWeekendDay then weekendStartTime timeConfig
                          else weekdayStartTime timeConfig);
          dayEndTime = (if isWeekendDay then weekendEndTime timeConfig
                        else weekdayEndTime timeConfig)
      in (dayStartTime, dayEndTime))"

text \<open>The initial capacity of one date (the body of the first \<open>forEach\<close>).\<close>

definition initDay :: "env \<Rightarrow> TimeConfig \<Rightarrow> instant \<Rightarrow> ymd \<times> DayCapacity" where
  "initDay e timeConfig d =
     (let dateStr = formatDateToYMD e d (timezone timeConfig);
          (dayStartTime, dayEndTime) = dayWorkHours e timeConfig d;
          dailyWorkMinutes =
            n_mul (n_sub (parseTimeToMinutes e dayEndTime) (parseTimeToMinutes e dayStartTime))
              (Num (timeBufferFactor timeConfig))
      in (dateStr,
          \<lparr>availableMinutes = Math_max (Num 0) dailyWorkMinutes,
           totalMinutes = Math_max (Num 0) (n_div dailyWorkMinutes (Num (timeBufferFactor timeConfig))),
           fungibleMinutes = Num 0,
           taskMinutes = Num 0\<rparr>))"

fun initDailyAvailabilityMap ::
  "env \<Rightarrow> TimeConfig \<Rightarrow> (ymd \<rightharpoonup> DayCapacity) \<Rightarrow> instant list \<Rightarrow> (ymd \<rightharpoonup> DayCapacity)" where
  "initDailyAvailabilityMap e timeConfig m [] = m"
| "initDailyAvailabilityMap e timeConfig m (d # ds) =
     initDailyAvailabilityMap e timeConfig
       (m(fst (initDay e timeConfig d) \<mapsto> snd (initDay e timeConfig d))) ds"

text \<open>The variables once all their declarations have run: the capacity of every date, the
  other maps empty, the counter 0.\<close>

definition initAggregates :: "env \<Rightarrow> TimeConfig \<Rightarrow> instant list \<Rightarrow> Aggregates" where
  "initAggregates e timeConfig datesInRange =
     \<lparr>dailyAvailabilityMap = initDailyAvailabilityMap e timeConfig Map.empty datesInRange,
      projectTaskMap = [],
      fungibleTimeMap = [],
      dailyDetailsMap = Map.empty,
      projectColorMap = Map.empty,
      nextColorIndex = 0\<rparr>"

text \<open>The Fungible branch: the deduction, then the calendar's entry of
  \<open>fungibleTimeMap\<close>. For a calendar id that \<open>Object.prototype\<close> defines the test
  \<open>!fungibleTimeMap[calendarId]\<close> finds the inherited property: no entry is made, and
  \<open>totalHours\<close> is added on the inherited object, not in the map.\<close>

definition deductFungible :: "ymd \<Rightarrow> DayCapacity \<Rightarrow> number \<Rightarrow> Aggregates \<Rightarrow> Aggregates" where
  "deductFungible eventDateStr cap overlap st =
     st\<lparr>dailyAvailabilityMap := (dailyAvailabilityMap st)(eventDateStr \<mapsto>
          cap\<lparr>fungibleMinutes := n_add (fungibleMinutes cap) overlap,
              availableMinutes := n_sub (availableMinutes cap) overlap\<rparr>)\<rparr>"

definition trackFungible :: "GoogleCalendar \<Rightarrow> string \<Rightarrow> number \<Rightarrow> Aggregates \<Rightarrow> Aggregates" where
  "trackFungible cal cid overlap st =
     (if inherited cid then st
      else
        (let st1 = (case map_of (fungibleTimeMap st) cid of
                      Some _ \<Rightarrow> st
                    | None \<Rightarrow>
                        (let (c, st') = getProjectColor st (calSummary cal)
                         in st'\<lparr>fungibleTimeMap := AList.update cid
                               \<lparr>calendarSummary = calSummary cal, feTotalHours = Num 0, feColor = c\<rparr>
                               (fungibleTimeMap st')\<rparr>))
         in st1\<lparr>fungibleTimeMap := AList.map_entry cid
                 (\<lambda>f. f\<lparr>feTotalHours := n_add (feTotalHours f) (n_div overlap (Num 60))\<rparr>)
                 (fungibleTimeMap st1)\<rparr>))"

definition fungibleBranch ::
  "ymd \<Rightarrow> DayCapacity \<Rightarrow> GoogleCalendar option \<Rightarrow> string \<Rightarrow> number \<Rightarrow> Aggregates
     \<Rightarrow> impactType \<times> Aggregates" where
  "fungibleBranch eventDateStr cap calendar cid overlap st =
     (let (impactType, st1) =
            (if n_gt overlap (Num 0)
             then (reduces_available, deductFungible eventDateStr cap overlap st)
             else (ignored, st))
      in case calendar of
           None \<Rightarrow> (impactType, st1)
         | Some cal \<Rightarrow> (impactType, trackFungible cal cid overlap st1))"

text \<open>The Task branch: blocking keywords, the deduction, then the bucket of
  \<open>projectTaskMap\<close>. The key of a bucket contains \<open>::\<close>, so it is no name of
  \<open>Object.prototype\<close> and no array index.\<close>

definition isBlocked :: "string \<Rightarrow> bool" where
  "isBlocked eventSummaryLower =
     list_ex (\<lambda>keyword. includes_str eventSummaryLower keyword) TASK_CALENDAR_BLOCK_KEYWORDS"

definition deductTask :: "ymd \<Rightarrow> DayCapacity \<Rightarrow> number \<Rightarrow> Aggregates \<Rightarrow> Aggregates" where
  "deductTask eventDateStr cap overlap st =
     st\<lparr>dailyAvailabilityMap := (dailyAvailabilityMap st)(eventDateStr \<mapsto>
          cap\<lparr>taskMinutes := n_add (taskMinutes cap) overlap,
              availableMinutes := n_sub (availableMinutes cap) overlap\<rparr>)\<rparr>"

definition taskKeyOf :: "string \<Rightarrow> string \<Rightarrow> string" where
  "taskKeyOf p t = toLowerCase (trim p) @ ''::'' @ toLowerCase (trim t)"

definition trackTask :: "string option \<Rightarrow> rat \<Rightarrow> Aggregates \<Rightarrow> Aggregates" where
  "trackTask summary eventDurationMinutes st =
     (let (p, t) = parseProjectTask summary;
          taskKey = taskKeyOf p t;
          st1 = (case map_of (projectTaskMap st) taskKey of
                   Some _ \<Rightarrow> st
                 | None \<Rightarrow>
                     (let (c, st') = getProjectColor st p
                      in st'\<lparr>projectTaskMap := AList.update taskKey
                            \<lparr>project = p, task = t, hours = 0, color = c\<rparr>
                            (projectTaskMap st')\<rparr>))
      in st1\<lparr>projectTaskMap := AList.map_entry taskKey
              (\<lambda>pt. pt\<lparr>hours := hours pt + eventDurationMinutes / 60\<rparr>)
              (projectTaskMap st1)\<rparr>)"

definition taskBranch ::
  "ymd \<Rightarrow> DayCapacity \<Rightarrow> string option \<Rightarrow> rat \<Rightarrow> number \<Rightarrow> Aggregates
     \<Rightarrow> impactType \<times> Aggregates" where
  "taskBranch eventDateStr cap summary eventDurationMinutes overlap st =
     (let eventSummaryLower = orElse (map_option toLowerCase summary) ''''
      in if isBlocked eventSummaryLower then (ignored, st)
         else (let st1 = (if n_gt overlap (Num 0)
                          then deductTask eventDateStr cap overlap st
                          else st)
               in (task_tracked, trackTask summary eventDurationMinutes st1)))"

text \<open>The row of \<open>dailyDetailsMap\<close>, only for an event that is not ignored.\<close>

definition addDailyDetail :: "ymd \<Rightarrow> DailyEventDetail \<Rightarrow> Aggregates \<Rightarrow> Aggregates" where
  "addDailyDetail eventDateStr detail st =
     (if impact detail \<noteq> ignored
      then st\<lparr>dailyDetailsMap := (dailyDetailsMap st)(eventDateStr \<mapsto>
               (case dailyDetailsMap st eventDateStr of None \<Rightarrow> [] | Some ds \<Rightarrow> ds) @ [detail])\<rparr>
      else st)"

text \<open>The minutes of an event inside the work hours of its day.\<close>

definition workHoursOverlapMinutes :: "env \<Rightarrow> TimeConfig \<Rightarrow> instant \<Rightarrow> instant \<Rightarrow> number" where
  "workHoursOverlapMinutes e timeConfig eventStart eventEnd =
     (let (dayStartTime, dayEndTime) = dayWorkHours e timeConfig eventStart
      in calculateWorkHoursOverlap e eventStart eventEnd dayStartTime dayEndTime
           (timezone timeConfig))"

text \<open>The body of \<open>relevantEvents.forEach\<close>.\<close>

definition processEvent ::
  "env \<Rightarrow> TimeConfig \<Rightarrow> GoogleCalendar list \<Rightarrow> Aggregates \<Rightarrow> RelevantEvent \<Rightarrow> Aggregates" where
  "processEvent e timeConfig allCalendars st ev =
     (case (startDateTime (event ev), endDateTime (event ev)) of
        (Some eventStart, Some eventEnd) \<Rightarrow>
          (let eventDurationMinutes = of_int (eventEnd - eventStart) / (1000 * 60);
               eventDateStr = formatDateToYMD e eventStart (timezone timeConfig)
           in case dailyAvailabilityMap st eventDateStr of
                None \<Rightarrow> st
              | Some cap \<Rightarrow>
                  (let cat = calendarCategory ev;
                       calendar = find (\<lambda>c. calId c = calendarId ev) allCalendars;
                       calName = orElse (map_option calSummary calendar) ''Unknown Calendar'';
                       overlap = workHoursOverlapMinutes e timeConfig eventStart eventEnd;
                       (impactType, st1) =
                         (case cat of
                            Fungible \<Rightarrow>
                              fungibleBranch eventDateStr cap calendar (calendarId ev) overlap st
                          | Task \<Rightarrow>
                              taskBranch eventDateStr cap (evSummary (event ev))
                                eventDurationMinutes overlap st
                          | Inactive \<Rightarrow> (ignored, st))
                   in addDailyDetail eventDateStr
                        \<lparr>dedSummary = orElse (evSummary (event ev)) ''Unnamed Event'',
                         calendarName = calName,
                         category = cat,
                         startTime = zoneClock e (timezone timeConfig) eventStart,
                         endTime = zoneClock e (timezone timeConfig) eventEnd,
                         duration = eventDurationMinutes / 60,
                         impact = impactType\<rparr> st1))
      | _ \<Rightarrow> st)"

fun processEvents ::
  "env \<Rightarrow> TimeConfig \<Rightarrow> GoogleCalendar list \<Rightarrow> Aggregates \<Rightarrow> RelevantEvent list \<Rightarrow> Aggregates" where
  "processEvents e timeConfig allCalendars st [] = st"
| "processEvents e timeConfig allCalendars st (ev # evs) =
     processEvents e timeConfig allCalendars (processEvent e timeConfig allCalendars st ev) evs"

subsection \<open>Collecting the events\<close>

text \<open>The loop over \<open>allCalendars\<close> fetches the events of every Fungible or Task calendar
  and tags them. \<open>listEvents\<close> stands for the fetch of the run's time range; \<open>Inl msg\<close> is a
  rejected fetch, which leaves the loop at once.\<close>

fun collectRelevantEvents ::
  "(string \<rightharpoonup> CalendarCategory) \<Rightarrow> (string \<Rightarrow> string + GoogleCalendarEvent list)
     \<Rightarrow> GoogleCalendar list \<Rightarrow> string + RelevantEvent list" where
  "collectRelevantEvents calendarCategories listEvents [] = Inr []"
| "collectRelevantEvents calendarCategories listEvents (cal # cals) =
     (case calendarCategories (calId cal) of
        None \<Rightarrow> collectRelevantEvents calendarCategories listEvents cals
      | Some cat \<Rightarrow>
          if cat = Fungible \<or> cat = Task then
            (case listEvents (calId cal) of
               Inl err \<Rightarrow> Inl err
             | Inr evs \<Rightarrow>
                 (case collectRelevantEvents calendarCategories listEvents cals of
                    Inl err \<Rightarrow> Inl err
                  | Inr rest \<Rightarrow>
                      Inr (map (\<lambda>ev. \<lparr>event = ev, calendarId = calId cal, calendarCategory = cat\<rparr>) evs
                           @ rest)))
          else collectRelevantEvents calendarCategories listEvents cals)"

subsection \<open>The report\<close>

definition dayAvailability :: "ymd \<Rightarrow> DayCapacity \<Rightarrow> DailyAvailability" where
  "dayAvailability displayDate data =
     (let availableAfterFungible =
            Math_max (Num 0) (n_div (n_sub (totalMinutes data) (fungibleMinutes data)) (Num 60))
      in \<lparr>date = displayDate,
          availableHours = Math_max (Num 0) (n_div (availableMinutes data) (Num 60)),
          totalHours = availableAfterFungible\<rparr>)"

text \<open>\<open>datesInRange.map\<close>: reading a field of a missing entry throws a \<open>TypeError\<close>.\<close>

fun finalDailyAvailability ::
  "env \<Rightarrow> TimeConfig \<Rightarrow> Aggregates \<Rightarrow> instant list \<Rightarrow> string + DailyAvailability list" where
  "finalDailyAvailability e timeConfig st [] = Inr []"
| "finalDailyAvailability e timeConfig st (d # ds) =
     (let dateStr = formatDateToYMD e d (timezone timeConfig)
      in case dailyAvailabilityMap st dateStr of
           None \<Rightarrow> Inl ''Cannot read properties of undefined''
         | Some data \<Rightarrow>
             (case finalDailyAvailability e timeConfig st ds of
                Inl err \<Rightarrow> Inl err
              | Inr rest \<Rightarrow> Inr (dayAvailability dateStr data # rest)))"

definition finalDailyDetails :: "env \<Rightarrow> TimeConfig \<Rightarrow> Aggregates \<Rightarrow> instant list \<Rightarrow> DailyDetails list" where
  "finalDailyDetails e timeConfig st datesInRange =
     map (\<lambda>d. let dateStr = formatDateToYMD e d (timezone timeConfig)
              in \<lparr>ddDate = dateStr,
                  events = (case dailyDetailsMap st dateStr of None \<Rightarrow> [] | Some ds \<Rightarrow> ds)\<rparr>)
         datesInRange"

text \<open>\<open>Array.prototype.sort\<close> with a comparator is stable: an element goes before the
  first one it does not compare greater than. A comparator result \<open>NaN\<close> counts as 0.\<close>

definition notGreater :: "number \<Rightarrow> bool" where
  "notGreater v = (case v of NaN \<Rightarrow> True | Num x \<Rightarrow> x \<le> 0)"

fun insertSorted :: "('a \<Rightarrow> 'a \<Rightarrow> number) \<Rightarrow> 'a \<Rightarrow> 'a list \<Rightarrow> 'a list" where
  "insertSorted cmp x [] = [x]"
| "insertSorted cmp x (y # ys) =
     (if notGreater (cmp x y) then x # y # ys else y # insertSorted cmp x ys)"

definition sortBy :: "('a \<Rightarrow> 'a \<Rightarrow> number) \<Rightarrow> 'a list \<Rightarrow> 'a list" where
  "sortBy cmp xs = foldr (insertSorted cmp) xs []"

text \<open>\<open>projectSummariesMap\<close>, keyed by the project label. For a label that
  \<open>Object.prototype\<close> defines no entry is made and the hours are added on the inherited
  object.\<close>

fun projectSummariesMap ::
  "(string \<times> ProjectSummary) list \<Rightarrow> ProjectTask list \<Rightarrow> (string \<times> ProjectSummary) list" where
  "projectSummariesMap m [] = m"
| "projectSummariesMap m (pt # pts) =
     (if inherited (project pt) then projectSummariesMap m pts
      else
        (let m1 = (case map_of m (project pt) of
                     Some _ \<Rightarrow> m
                   | None \<Rightarrow> AList.update (project pt)
                       \<lparr>psProject = project pt, psTotalHours = 0, psColor = color pt\<rparr> m)
         in projectSummariesMap
              (AList.map_entry (project pt) (\<lambda>ps. ps\<lparr>psTotalHours := psTotalHours ps + hours pt\<rparr>) m1)
              pts))"

definition finalProjectSummaries :: "ProjectTask list \<Rightarrow> ProjectSummary list" where
  "finalProjectSummaries projectTaskData =
     sortBy (\<lambda>a b. Num (psTotalHours b - psTotalHours a))
       (map snd (ownEntries (projectSummariesMap [] projectTaskData)))"

definition finalFungibleSummaries :: "Aggregates \<Rightarrow> FungibleTimeSummary list" where
  "finalFungibleSummaries st =
     sortBy (\<lambda>a b. n_sub (fsTotalHours b) (fsTotalHours a))
       (map (\<lambda>(k, d). \<lparr>fsCalendarSummary = calendarSummary d, fsTotalHours = feTotalHours d,
                        fsColor = feColor d, fsProject = calendarSummary d\<rparr>)
            (ownEntries (fungibleTimeMap st)))"

definition sortedProjectTasks :: "env \<Rightarrow> ProjectTask list \<Rightarrow> ProjectTask list" where
  "sortedProjectTasks e projectTaskData =
     sortBy (\<lambda>a b. let c = localeCompare e (project a) (project b)
                    in Num (of_int (if c \<noteq> 0 then c else localeCompare e (task a) (task b))))
       projectTaskData"

text \<open>The body of the \<open>try\<close> block after the validation, run on the callback's variables
  \<open>vars\<close>: each declaration overwrites its variable. \<open>Inl msg\<close> is an exception with that
  message, \<open>Inr\<close> the value given to \<open>setProcessedData\<close>; the second component is what the
  variables hold at the end.\<close>

definition computeReport ::
  "env \<Rightarrow> TimeConfig \<Rightarrow> GoogleCalendar list \<Rightarrow> (string \<rightharpoonup> CalendarCategory)
     \<Rightarrow> (string \<Rightarrow> string + GoogleCalendarEvent list) \<Rightarrow> Aggregates
     \<Rightarrow> (string + ProcessedData) \<times> Aggregates" where
  "computeReport e timeConfig allCalendars calendarCategories listEvents vars =
     (let datesInRange = getDatesInRange e (startDate timeConfig) (endDate timeConfig)
                           (timezone timeConfig);
          vars1 = vars\<lparr>dailyAvailabilityMap :=
                         initDailyAvailabilityMap e timeConfig Map.empty datesInRange\<rparr>
      in case collectRelevantEvents calendarCategories listEvents allCalendars of
           Inl err \<Rightarrow> (Inl err, vars1)
         | Inr relevantEvents \<Rightarrow>
             (let vars2 = vars1\<lparr>projectTaskMap := [],
                                fungibleTimeMap := [],
                                dailyDetailsMap := Map.empty,
                                projectColorMap := Map.empty,
                                nextColorIndex := 0\<rparr>;
                  st = processEvents e timeConfig allCalendars vars2 relevantEvents
              in case finalDailyAvailability e timeConfig st datesInRange of
                   Inl err \<Rightarrow> (Inl err, st)
                 | Inr fda \<Rightarrow>
                     (let projectTaskData = map snd (ownEntries (projectTaskMap st))
                      in (Inr \<lparr>dailyAvailability = fda,
                               projectTasks = sortedProjectTasks e projectTaskData,
                               projectSummaries = finalProjectSummaries projectTaskData,
                               fungibleTimeSummary = finalFungibleSummaries st,
                               dailyDetails = finalDailyDetails e timeConfig st datesInRange\<rparr>,
                          st))))"

subsection \<open>\<open>processCalendarData\<close>\<close>

text \<open>The React state that the callback reads and sets, and the callback's variables.\<close>

record AppState =
  isSignedIn :: bool
  isLoading :: bool
  error :: "string option"
  processedData :: "ProcessedData option"
  variables :: Aggregates

definition processCalendarData ::
  "env \<Rightarrow> TimeConfig \<Rightarrow> GoogleCalendar list \<Rightarrow> (string \<rightharpoonup> CalendarCategory)
     \<Rightarrow> (string \<Rightarrow> string + GoogleCalendarEvent list) \<Rightarrow> AppState \<Rightarrow> AppState" where
  "processCalendarData e timeConfig allCalendars calendarCategories listEvents s =
     (if \<not> isSignedIn s then s\<lparr>error := Some ''Please sign in first.''\<rparr>
      else
        (let s1 = s\<lparr>isLoading := True, error := None, processedData := None\<rparr>;
             weekdayWorkMinutes = n_sub (parseTimeToMinutes e (weekdayEndTime timeConfig))
                                    (parseTimeToMinutes e (weekdayStartTime timeConfig));
             weekendWorkMinutes = n_sub (parseTimeToMinutes e (weekendEndTime timeConfig))
                                    (parseTimeToMinutes e (weekendStartTime timeConfig))
         in if n_le weekdayWorkMinutes (Num 0)
            then s1\<lparr>error := Some ''Weekday end time must be after start time.'', isLoading := False\<rparr>
            else if n_le weekendWorkMinutes (Num 0)
            then s1\<lparr>error := Some ''Weekend end time must be after start time.'', isLoading := False\<rparr>
            else (case computeReport e timeConfig allCalendars calendarCategories listEvents
                         (variables s1) of
                    (Inl msg, vars) \<Rightarrow>
                      s1\<lparr>variables := vars,
                         error := Some (''Failed to process data: '' @ orElse (Some msg) ''Unknown error''),
                         isLoading := False\<rparr>
                  | (Inr r, vars) \<Rightarrow>
                      s1\<lparr>variables := vars, processedData := Some r, isLoading := False\<rparr>)))"

subsection \<open>An environment for the examples\<close>

text \<open>A browser whose own zone is UTC, asked for UTC: day 0 is Thursday 1970-01-01.
  \<open>Number\<close> is given on the strings of the examples: decimal digits between optional
  white space, and the empty string, which is 0.\<close>

fun compareStr :: "string \<Rightarrow> string \<Rightarrow> int" where
  "compareStr [] [] = 0"
| "compareStr [] (b # bs) = - 1"
| "compareStr (a # as) [] = 1"
| "compareStr (a # as) (b # bs) =
     (if a = b then compareStr as bs else if (of_char a :: nat) < of_char b then - 1 else 1)"

definition numberOfDigits :: "string \<Rightarrow> number" where
  "numberOfDigits s = (case decimalValue 0 (trim s) of None \<Rightarrow> NaN | Some n \<Rightarrow> Num (of_nat n))"

definition twoDigits :: "int \<Rightarrow> string" where
  "twoDigits n = [''0123456789'' ! nat (n div 10), ''0123456789'' ! nat (n mod 10)]"

definition utc :: env where
  "utc = \<lparr>zoneDate = (\<lambda>tz t. t div 86400000),
          zoneClock = (\<lambda>tz t. twoDigits ((t mod 86400000) div 3600000) @ '':''
                               @ twoDigits ((t mod 3600000) div 60000)),
          getDay = (\<lambda>t. nat ((t div 86400000 + 4) mod 7)),
          localNoon = (\<lambda>d. d * 86400000 + 43200000),
          localeCompare = compareStr,
          jsNumber = numberOfDigits\<rparr>"

definition atClock :: "ymd \<Rightarrow> int \<Rightarrow> int \<Rightarrow> instant" where
  "atClock d h m = d * 86400000 + h * 3600000 + m * 60000"

definition workday :: "rat \<Rightarrow> ymd \<Rightarrow> ymd \<Rightarrow> TimeConfig" where
  "workday b d1 d2 =
     \<lparr>startDate = d1, endDate = d2,
      weekdayStartTime = ''09:00'',
      weekdayEndTime = ''17:00'',
      weekendStartTime = ''10:00'',
      weekendEndTime = ''18:00'',
      timezone = ''UTC'',
      timeBufferFactor = b\<rparr>"

definition calendarOf :: "string \<Rightarrow> GoogleCalendar" where
  "calendarOf n = \<lparr>calId = n, calSummary = n, backgroundColor = []\<rparr>"

definition eventAt :: "string \<Rightarrow> instant \<Rightarrow> instant \<Rightarrow> GoogleCalendarEvent" where
  "eventAt s t1 t2 = \<lparr>evId = [], evSummary = Some s, startDateTime = Some t1, endDateTime = Some t2\<rparr>"

text \<open>The state before the first run: signed in, the variables never declared.\<close>

definition noVariables :: Aggregates where
  "noVariables =
     \<lparr>dailyAvailabilityMap = Map.empty, projectTaskMap = [], fungibleTimeMap = [],
      dailyDetailsMap = Map.empty, projectColorMap = Map.empty, nextColorIndex = 0\<rparr>"

definition signedIn :: AppState where
  "signedIn = \<lparr>isSignedIn = True, isLoading = False, error = None, processedData = None,
               variables = noVariables\<rparr>"

subsection \<open>Colors of the palette\<close>

text \<open>Every color handed out so far, and the color of every fungible entry whose calendar
  name \<open>Object.prototype\<close> does not define, is one of \<open>PROJECT_COLORS\<close>.\<close>

definition paletteOnly :: "Aggregates \<Rightarrow> bool" where
  "paletteOnly st \<longleftrightarrow>
     (\<forall>n c. projectColorMap st n = Some c \<longrightarrow> c \<in> set PROJECT_COLORS)
     \<and> (\<forall>k f. map_of (fungibleTimeMap st) k = Some f \<longrightarrow> \<not> inherited (calendarSummary f) \<longrightarrow>
            (\<exists>c \<in> set PROJECT_COLORS. feColor f = Color c))"

section \<open>Properties\<close>

subsection \<open>Numbers\<close>

lemma n_gt_positive: "n_gt v (Num 0) \<Longrightarrow> \<exists>x. v = Num x \<and> 0 < x"
  by (cases v) (simp_all add: n_gt_def)

lemma n_gt_Num [simp]: "n_gt (Num a) (Num b) = (b < a)"
  by (simp add: n_gt_def)

lemma n_ge_Num [simp]: "n_ge (Num a) (Num b) = (b \<le> a)"
  by (simp add: n_ge_def)

lemma n_lt_numbers: "n_lt v w \<Longrightarrow> \<exists>a b. v = Num a \<and> w = Num b \<and> a < b"
  by (cases v; cases w) simp_all

lemma n_le_numbers: "n_le v w \<Longrightarrow> \<exists>a b. v = Num a \<and> w = Num b \<and> a \<le> b"
  by (cases v; cases w) simp_all



subsection \<open>Strings\<close>

lemma split_nonempty: "split sep s \<noteq> []"
  by (induction s) (auto split: list.splits)

lemma split_first:
  "sep \<in> set s \<Longrightarrow>
     split sep s = takeWhile (\<lambda>c. c \<noteq> sep) s # split sep (tl (dropWhile (\<lambda>c. c \<noteq> sep) s))"
  by (induction s) (auto split: list.splits simp: split_nonempty)

lemma split_hd: "hd (split sep s) = takeWhile (\<lambda>c. c \<noteq> sep) s"
  by (induction s) (auto split: list.splits simp: split_nonempty)

lemma includes_str_char: "includes_str s [c] = (c \<in> set s)"
  by (induction s) auto

lemma splitLimit_two:
  assumes "sep \<in> set s"
  shows "splitLimit sep 2 s =
           [takeWhile (\<lambda>c. c \<noteq> sep) s,
            takeWhile (\<lambda>c. c \<noteq> sep) (tl (dropWhile (\<lambda>c. c \<noteq> sep) s))]"
proof -
  let ?r = "tl (dropWhile (\<lambda>c. c \<noteq> sep) s)"
  obtain p ps where r: "split sep ?r = p # ps"
    using split_nonempty [of sep ?r] by (cases "split sep ?r") auto
  have "p = takeWhile (\<lambda>c. c \<noteq> sep) ?r"
    using split_hd [of sep ?r] r by simp
  then show ?thesis
    using split_first [OF assms] r by (simp add: splitLimit_def numeral_2_eq_2)
qed

text \<open>What the parsing does with any summary that has a colon: the task is the piece
  between the first colon and the next one.\<close>

lemma parseProjectTask_colon:
  "CHR '':'' \<in> set s \<Longrightarrow>
     parseProjectTask (Some s) =
       (trim (takeWhile (\<lambda>c. c \<noteq> CHR '':'') s),
        trim (takeWhile (\<lambda>c. c \<noteq> CHR '':'') (tl (dropWhile (\<lambda>c. c \<noteq> CHR '':'') s))))"
  by (simp add: parseProjectTask_def includes_str_char splitLimit_two)

lemma parseProjectTask_no_colon:
  "CHR '':'' \<notin> set s \<Longrightarrow> s \<noteq> [] \<Longrightarrow> parseProjectTask (Some s) = (s, s)"
  by (simp add: parseProjectTask_def includes_str_char orElse_def)

lemma parseProjectTask_default:
  "parseProjectTask (Some []) = (''Unassigned'', ''Unnamed Task'')"
  "parseProjectTask None = (''Unassigned'', ''Unnamed Task'')"
  by (simp_all add: parseProjectTask_def orElse_def)

text \<open>With a single colon the task is the whole remainder.\<close>

lemma parseProjectTask_one_colon:
  assumes "CHR '':'' \<in> set s" and "CHR '':'' \<notin> set (tl (dropWhile (\<lambda>c. c \<noteq> CHR '':'') s))"
  shows "parseProjectTask (Some s) =
     (trim (takeWhile (\<lambda>c. c \<noteq> CHR '':'') s), trim (tl (dropWhile (\<lambda>c. c \<noteq> CHR '':'') s)))"
proof -
  have whole: "takeWhile (\<lambda>c. c \<noteq> CHR '':'') (tl (dropWhile (\<lambda>c. c \<noteq> CHR '':'') s))
          = tl (dropWhile (\<lambda>c. c \<noteq> CHR '':'') s)"
    using assms(2) by (auto simp: takeWhile_eq_all_conv)
  show ?thesis
    by (simp only: parseProjectTask_colon [OF assms(1)] whole)
qed

text \<open>The key of a bucket is no name of \<open>Object.prototype\<close> and no array index.\<close>

lemma taskKeyOf_colon: "CHR '':'' \<in> set (taskKeyOf p t)"
  by (simp add: taskKeyOf_def)

lemma inherited_no_colon: "inherited k \<Longrightarrow> CHR '':'' \<notin> set k"
  by (auto simp: inherited_def objectPrototypeNames_def)

lemma decimalValue_digits: "decimalValue acc k = Some n \<Longrightarrow> CHR '':'' \<notin> set k"
  by (induction k arbitrary: acc) (auto simp: digitValue_def split: option.splits if_splits)

lemma arrayIndex_no_colon: "arrayIndex k = Some n \<Longrightarrow> CHR '':'' \<notin> set k"
  by (auto simp: arrayIndex_def split: if_splits option.splits dest: decimalValue_digits)

lemma taskKeyOf_plain: "\<not> inherited (taskKeyOf p t)" "arrayIndex (taskKeyOf p t) = None"
proof -
  show "\<not> inherited (taskKeyOf p t)"
    using inherited_no_colon [of "taskKeyOf p t"] taskKeyOf_colon [of p t] by blast
  show "arrayIndex (taskKeyOf p t) = None"
  proof (cases "arrayIndex (taskKeyOf p t)")
    case None
    then show ?thesis .
  next
    case (Some n)
    then show ?thesis
      using arrayIndex_no_colon [of "taskKeyOf p t" n] taskKeyOf_colon [of p t] by blast
  qed
qed

subsection \<open>The pass over the events\<close>

lemma processEvent_skip:
  "startDateTime (event ev) = None \<or> endDateTime (event ev) = None \<Longrightarrow>
     processEvent e cfg cals st ev = st"
  by (auto simp: processEvent_def split: option.splits)

lemma processEvents_append:
  "processEvents e cfg cals st (xs @ ys) =
     processEvents e cfg cals (processEvents e cfg cals st xs) ys"
  by (induction xs arbitrary: st) auto

lemma getProjectColor_frame:
  "dailyAvailabilityMap (snd (getProjectColor st p)) = dailyAvailabilityMap st"
  "dailyDetailsMap (snd (getProjectColor st p)) = dailyDetailsMap st"
  "projectTaskMap (snd (getProjectColor st p)) = projectTaskMap st"
  "fungibleTimeMap (snd (getProjectColor st p)) = fungibleTimeMap st"
  by (simp_all add: getProjectColor_def Let_def split: option.splits)

lemma trackFungible_frame:
  "dailyAvailabilityMap (trackFungible cal cid ov st) = dailyAvailabilityMap st"
  "dailyDetailsMap (trackFungible cal cid ov st) = dailyDetailsMap st"
  "projectTaskMap (trackFungible cal cid ov st) = projectTaskMap st"
  by (simp_all add: trackFungible_def Let_def case_prod_beta getProjectColor_frame
        split: option.splits)

lemma trackTask_frame:
  "dailyAvailabilityMap (trackTask summ dur st) = dailyAvailabilityMap st"
  "dailyDetailsMap (trackTask summ dur st) = dailyDetailsMap st"
  "fungibleTimeMap (trackTask summ dur st) = fungibleTimeMap st"
  by (simp_all add: trackTask_def Let_def case_prod_beta getProjectColor_frame
        split: option.splits)

lemma addDailyDetail_frame:
  "dailyAvailabilityMap (addDailyDetail k d st) = dailyAvailabilityMap st"
  "projectTaskMap (addDailyDetail k d st) = projectTaskMap st"
  "fungibleTimeMap (addDailyDetail k d st) = fungibleTimeMap st"
  "projectColorMap (addDailyDetail k d st) = projectColorMap st"
  "nextColorIndex (addDailyDetail k d st) = nextColorIndex st"
  by (simp_all add: addDailyDetail_def)

lemma fungibleBranch_daily:
  "dailyAvailabilityMap (snd (fungibleBranch k cap calendar cid ov st)) =
     (if n_gt ov (Num 0)
      then (dailyAvailabilityMap st)(k \<mapsto>
             cap\<lparr>fungibleMinutes := n_add (fungibleMinutes cap) ov,
                 availableMinutes := n_sub (availableMinutes cap) ov\<rparr>)
      else dailyAvailabilityMap st)"
  by (simp add: fungibleBranch_def deductFungible_def trackFungible_frame split: option.splits)

lemma taskBranch_daily:
  "dailyAvailabilityMap (snd (taskBranch k cap summ dur ov st)) =
     (if n_gt ov (Num 0) \<and> \<not> isBlocked (orElse (map_option toLowerCase summ) [])
      then (dailyAvailabilityMap st)(k \<mapsto>
             cap\<lparr>taskMinutes := n_add (taskMinutes cap) ov,
                 availableMinutes := n_sub (availableMinutes cap) ov\<rparr>)
      else dailyAvailabilityMap st)"
  by (simp add: taskBranch_def deductTask_def trackTask_frame Let_def)

lemma processEvent_fungible:
  assumes "calendarCategory ev = Fungible"
    and "startDateTime (event ev) = Some s" and "endDateTime (event ev) = Some t"
    and "dailyAvailabilityMap st (formatDateToYMD e s (timezone cfg)) = Some cap"
  shows "processEvent e cfg cals st ev =
     (let k = formatDateToYMD e s (timezone cfg);
          calendar = find (\<lambda>c. calId c = calendarId ev) cals;
          r = fungibleBranch k cap calendar (calendarId ev) (workHoursOverlapMinutes e cfg s t) st
      in addDailyDetail k
           \<lparr>dedSummary = orElse (evSummary (event ev)) ''Unnamed Event'',
            calendarName = orElse (map_option calSummary calendar) ''Unknown Calendar'',
            category = Fungible,
            startTime = zoneClock e (timezone cfg) s,
            endTime = zoneClock e (timezone cfg) t,
            duration = of_int (t - s) / (1000 * 60) / 60,
            impact = fst r\<rparr> (snd r))"
  using assms by (simp add: processEvent_def Let_def case_prod_beta)

lemma processEvent_task:
  assumes "calendarCategory ev = Task"
    and "startDateTime (event ev) = Some s" and "endDateTime (event ev) = Some t"
    and "dailyAvailabilityMap st (formatDateToYMD e s (timezone cfg)) = Some cap"
  shows "processEvent e cfg cals st ev =
     (let k = formatDateToYMD e s (timezone cfg);
          calendar = find (\<lambda>c. calId c = calendarId ev) cals;
          r = taskBranch k cap (evSummary (event ev)) (of_int (t - s) / (1000 * 60))
                (workHoursOverlapMinutes e cfg s t) st
      in addDailyDetail k
           \<lparr>dedSummary = orElse (evSummary (event ev)) ''Unnamed Event'',
            calendarName = orElse (map_option calSummary calendar) ''Unknown Calendar'',
            category = Task,
            startTime = zoneClock e (timezone cfg) s,
            endTime = zoneClock e (timezone cfg) t,
            duration = of_int (t - s) / (1000 * 60) / 60,
            impact = fst r\<rparr> (snd r))"
  using assms by (simp add: processEvent_def Let_def case_prod_beta)

lemma processEvent_not_in_range:
  assumes "startDateTime (event ev) = Some s"
    and "dailyAvailabilityMap st (formatDateToYMD e s (timezone cfg)) = None"
  shows "processEvent e cfg cals st ev = st"
  using assms by (simp add: processEvent_def Let_def split: option.splits)

text \<open>One event leaves the capacity map as it is or deducts a positive number of minutes
  from one record.\<close>

lemma processEvent_daily:
  "dailyAvailabilityMap (processEvent e cfg cals st ev) = dailyAvailabilityMap st
   \<or> (\<exists>k cap x. dailyAvailabilityMap st k = Some cap \<and> 0 < x \<and>
         (dailyAvailabilityMap (processEvent e cfg cals st ev) =
            (dailyAvailabilityMap st)(k \<mapsto>
               cap\<lparr>fungibleMinutes := n_add (fungibleMinutes cap) (Num x),
                   availableMinutes := n_sub (availableMinutes cap) (Num x)\<rparr>)
          \<or> dailyAvailabilityMap (processEvent e cfg cals st ev) =
            (dailyAvailabilityMap st)(k \<mapsto>
               cap\<lparr>taskMinutes := n_add (taskMinutes cap) (Num x),
                   availableMinutes := n_sub (availableMinutes cap) (Num x)\<rparr>)))"
proof (cases "startDateTime (event ev)")
  case None
  then show ?thesis by (simp add: processEvent_skip)
next
  case (Some s)
  note s = this
  show ?thesis
  proof (cases "endDateTime (event ev)")
    case None
    then show ?thesis by (simp add: processEvent_skip)
  next
    case (Some t)
    note t = this
    let ?k = "formatDateToYMD e s (timezone cfg)"
    show ?thesis
    proof (cases "dailyAvailabilityMap st ?k")
      case None
      then show ?thesis by (simp add: processEvent_not_in_range [OF s])
    next
      case (Some cap)
      let ?ov = "workHoursOverlapMinutes e cfg s t"
      show ?thesis
      proof (cases "calendarCategory ev")
        case Inactive
        then show ?thesis
          by (simp add: processEvent_def s t Some Let_def addDailyDetail_frame)
      next
        case Fungible
        have eq: "dailyAvailabilityMap (processEvent e cfg cals st ev) =
            dailyAvailabilityMap (snd (fungibleBranch ?k cap
              (find (\<lambda>c. calId c = calendarId ev) cals) (calendarId ev) ?ov st))"
          by (simp add: processEvent_fungible [OF Fungible s t Some] Let_def addDailyDetail_frame)
        show ?thesis
        proof (cases "n_gt ?ov (Num 0)")
          case True
          then obtain x where x: "?ov = Num x" "0 < x" using n_gt_positive by blast
          with Some eq show ?thesis
            unfolding fungibleBranch_daily
            by (intro disjI2 exI [of _ ?k] exI [of _ cap] exI [of _ x]) simp
        next
          case False
          with eq show ?thesis by (simp add: fungibleBranch_daily)
        qed
      next
        case Task
        have eq: "dailyAvailabilityMap (processEvent e cfg cals st ev) =
            dailyAvailabilityMap (snd (taskBranch ?k cap (evSummary (event ev))
              (of_int (t - s) / (1000 * 60)) ?ov st))"
          by (simp add: processEvent_task [OF Task s t Some] Let_def addDailyDetail_frame)
        show ?thesis
        proof (cases "n_gt ?ov (Num 0) \<and> \<not> isBlocked (orElse (map_option toLowerCase (evSummary (event ev))) [])")
          case True
          then obtain x where x: "?ov = Num x" "0 < x" using n_gt_positive by blast
          with True Some eq show ?thesis
            unfolding taskBranch_daily
            by (intro disjI2 exI [of _ ?k] exI [of _ cap] exI [of _ x]) simp
        next
          case False
          with eq show ?thesis by (simp add: taskBranch_daily)
        qed
      qed
    qed
  qed
qed

lemma processEvent_capacity_invariant:
  assumes step_f: "\<forall>c x. P c \<longrightarrow> (0::rat) < x \<longrightarrow>
      P (c\<lparr>fungibleMinutes := n_add (fungibleMinutes c) (Num x),
           availableMinutes := n_sub (availableMinutes c) (Num x)\<rparr>)"
    and step_t: "\<forall>c x. P c \<longrightarrow> (0::rat) < x \<longrightarrow>
      P (c\<lparr>taskMinutes := n_add (taskMinutes c) (Num x),
           availableMinutes := n_sub (availableMinutes c) (Num x)\<rparr>)"
    and inv: "\<forall>k c. dailyAvailabilityMap st k = Some c \<longrightarrow> P c"
    and look: "dailyAvailabilityMap (processEvent e cfg cals st ev) k = Some c"
  shows "P c"
proof -
  let ?m' = "dailyAvailabilityMap (processEvent e cfg cals st ev)"
  consider (same) "?m' = dailyAvailabilityMap st"
    | (fung) k' cap x where "dailyAvailabilityMap st k' = Some cap" "(0::rat) < x"
        "?m' = (dailyAvailabilityMap st)(k' \<mapsto>
           cap\<lparr>fungibleMinutes := n_add (fungibleMinutes cap) (Num x),
               availableMinutes := n_sub (availableMinutes cap) (Num x)\<rparr>)"
    | (task) k' cap x where "dailyAvailabilityMap st k' = Some cap" "(0::rat) < x"
        "?m' = (dailyAvailabilityMap st)(k' \<mapsto>
           cap\<lparr>taskMinutes := n_add (taskMinutes cap) (Num x),
               availableMinutes := n_sub (availableMinutes cap) (Num x)\<rparr>)"
    using processEvent_daily [of e cfg cals st ev] by blast
  then show ?thesis
  proof cases
    case same
    with look inv show ?thesis by simp
  next
    case fung
    show ?thesis
    proof (cases "k = k'")
      case True
      with look fung(3) have "c = cap\<lparr>fungibleMinutes := n_add (fungibleMinutes cap) (Num x),
          availableMinutes := n_sub (availableMinutes cap) (Num x)\<rparr>" by simp
      moreover have "P cap" using inv fung(1) by blast
      ultimately show ?thesis using step_f fung(2) by simp
    next
      case False
      with look fung(3) inv show ?thesis by simp
    qed
  next
    case task
    show ?thesis
    proof (cases "k = k'")
      case True
      with look task(3) have "c = cap\<lparr>taskMinutes := n_add (taskMinutes cap) (Num x),
          availableMinutes := n_sub (availableMinutes cap) (Num x)\<rparr>" by simp
      moreover have "P cap" using inv task(1) by blast
      ultimately show ?thesis using step_t task(2) by simp
    next
      case False
      with look task(3) inv show ?thesis by simp
    qed
  qed
qed

lemma processEvents_capacity_invariant:
  assumes step_f: "\<forall>c x. P c \<longrightarrow> (0::rat) < x \<longrightarrow>
      P (c\<lparr>fungibleMinutes := n_add (fungibleMinutes c) (Num x),
           availableMinutes := n_sub (availableMinutes c) (Num x)\<rparr>)"
    and step_t: "\<forall>c x. P c \<longrightarrow> (0::rat) < x \<longrightarrow>
      P (c\<lparr>taskMinutes := n_add (taskMinutes c) (Num x),
           availableMinutes := n_sub (availableMinutes c) (Num x)\<rparr>)"
  shows "\<forall>k c. dailyAvailabilityMap st k = Some c \<longrightarrow> P c \<Longrightarrow>
     \<forall>k c. dailyAvailabilityMap (processEvents e cfg cals st evs) k = Some c \<longrightarrow> P c"
proof (induction evs arbitrary: st)
  case Nil
  then show ?case by simp
next
  case (Cons ev evs)
  have "\<forall>k c. dailyAvailabilityMap (processEvent e cfg cals st ev) k = Some c \<longrightarrow> P c"
    using processEvent_capacity_invariant [OF step_f step_t Cons.prems] by blast
  then show ?case
    using Cons.IH by simp
qed

lemma initDailyAvailabilityMap_lookup:
  "initDailyAvailabilityMap e cfg m ds k = Some c \<Longrightarrow>
     m k = Some c \<or> (\<exists>d \<in> set ds. c = snd (initDay e cfg d))"
  by (induction ds arbitrary: m) (fastforce split: if_splits)+

lemma finalDailyAvailability_mem:
  "finalDailyAvailability e cfg st ds = Inr fda \<Longrightarrow> x \<in> set fda \<Longrightarrow>
     \<exists>k c. dailyAvailabilityMap st k = Some c \<and> x = dayAvailability k c"
proof (induction ds arbitrary: fda)
  case Nil
  then show ?case by simp
next
  case (Cons d ds)
  let ?k = "formatDateToYMD e d (timezone cfg)"
  from Cons.prems(1) obtain data rest where
    data: "dailyAvailabilityMap st ?k = Some data"
    and rest: "finalDailyAvailability e cfg st ds = Inr rest"
    and fda: "fda = dayAvailability ?k data # rest"
    by (auto simp: Let_def split: option.splits sum.splits)
  from Cons.prems(2) fda consider "x = dayAvailability ?k data" | "x \<in> set rest" by auto
  then show ?case
  proof cases
    case 1
    with data show ?thesis by blast
  next
    case 2
    then show ?thesis by (rule Cons.IH [OF rest])
  qed
qed



subsection \<open>The variables of a run\<close>

text \<open>Once every declaration has run, nothing is left of what the variables held before.\<close>

lemma declarations_overwrite:
  "vars\<lparr>dailyAvailabilityMap := initDailyAvailabilityMap e cfg Map.empty dates,
        projectTaskMap := [], fungibleTimeMap := [], dailyDetailsMap := Map.empty,
        projectColorMap := Map.empty, nextColorIndex := 0\<rparr>
     = initAggregates e cfg dates"
  by (cases vars) (simp add: initAggregates_def)

lemma computeReport_result:
  "fst (computeReport e cfg cals cats fetch vars) =
     (let dates = getDatesInRange e (startDate cfg) (endDate cfg) (timezone cfg)
      in case collectRelevantEvents cats fetch cals of
           Inl err \<Rightarrow> Inl err
         | Inr evs \<Rightarrow>
             (let st = processEvents e cfg cals (initAggregates e cfg dates) evs
              in case finalDailyAvailability e cfg st dates of
                   Inl err \<Rightarrow> Inl err
                 | Inr fda \<Rightarrow>
                     Inr \<lparr>dailyAvailability = fda,
                          projectTasks = sortedProjectTasks e (map snd (ownEntries (projectTaskMap st))),
                          projectSummaries = finalProjectSummaries (map snd (ownEntries (projectTaskMap st))),
                          fungibleTimeSummary = finalFungibleSummaries st,
                          dailyDetails = finalDailyDetails e cfg st dates\<rparr>))"
  by (simp add: computeReport_def Let_def declarations_overwrite split: sum.splits)

lemma processCalendarData_report:
  "isSignedIn s \<Longrightarrow> processedData (processCalendarData e cfg cals cats fetch s) = Some r \<Longrightarrow>
     fst (computeReport e cfg cals cats fetch vars) = Inr r"
proof -
  assume s: "isSignedIn s" and r: "processedData (processCalendarData e cfg cals cats fetch s) = Some r"
  have "fst (computeReport e cfg cals cats fetch (variables s)) = Inr r"
    using s r
    by (auto simp: processCalendarData_def Let_def split: if_splits sum.splits prod.splits)
  then show ?thesis
    by (simp add: computeReport_result)
qed

lemma computeReport_daily:
  "fst (computeReport e cfg cals cats fetch vars) = Inr r \<Longrightarrow>
     \<exists>evs. finalDailyAvailability e cfg
        (processEvents e cfg cals
           (initAggregates e cfg (getDatesInRange e (startDate cfg) (endDate cfg) (timezone cfg))) evs)
        (getDatesInRange e (startDate cfg) (endDate cfg) (timezone cfg)) = Inr (dailyAvailability r)"
  by (auto simp: computeReport_result Let_def split: sum.splits)

subsection \<open>The initial capacity\<close>

lemma initDay_valid:
  assumes "n_lt (parseTimeToMinutes e (weekdayStartTime cfg)) (parseTimeToMinutes e (weekdayEndTime cfg))"
    and "n_lt (parseTimeToMinutes e (weekendStartTime cfg)) (parseTimeToMinutes e (weekendEndTime cfg))"
    and "0 < timeBufferFactor cfg"
  shows "\<exists>t. 0 < t
         \<and> totalMinutes (snd (initDay e cfg d)) = Num t
         \<and> availableMinutes (snd (initDay e cfg d)) = Num (t * timeBufferFactor cfg)
         \<and> fungibleMinutes (snd (initDay e cfg d)) = Num 0
         \<and> taskMinutes (snd (initDay e cfg d)) = Num 0"
proof -
  obtain a b where ab: "dayWorkHours e cfg d = (a, b)" by (cases "dayWorkHours e cfg d")
  have "n_lt (parseTimeToMinutes e a) (parseTimeToMinutes e b)"
    using ab assms(1,2) by (auto simp: dayWorkHours_def Let_def split: if_splits)
  then obtain x y where xy: "parseTimeToMinutes e a = Num x" "parseTimeToMinutes e b = Num y" "x < y"
    using n_lt_numbers by blast
  then have w: "0 < y - x" by simp
  then have "0 < (y - x) * timeBufferFactor cfg" using assms(3) by simp
  with w assms(3) xy(3) show ?thesis
    by (intro exI [of _ "y - x"]) (simp add: initDay_def ab xy(1,2) Let_def max_def)
qed

lemma initDailyAvailabilityMap_dom:
  "dom (initDailyAvailabilityMap e cfg m ds) = dom m \<union> (\<lambda>d. formatDateToYMD e d (timezone cfg)) ` set ds"
  by (induction ds arbitrary: m) (auto simp: initDay_def Let_def case_prod_beta)

lemma processEvent_dom:
  "dom (dailyAvailabilityMap (processEvent e cfg cals st ev)) = dom (dailyAvailabilityMap st)"
  using processEvent_daily [of e cfg cals st ev] by (auto simp: dom_def split: if_splits)

lemma processEvents_dom:
  "dom (dailyAvailabilityMap (processEvents e cfg cals st evs)) = dom (dailyAvailabilityMap st)"
  by (induction evs arbitrary: st) (simp_all add: processEvent_dom)

subsection \<open>Buckets\<close>

lemma trackTask_bucket:
  assumes "parseProjectTask summ = (p, tk)"
  shows "map_of (projectTaskMap (trackTask summ dur st)) (taskKeyOf p tk) =
     Some (case map_of (projectTaskMap st) (taskKeyOf p tk) of
             None \<Rightarrow> \<lparr>project = p, task = tk, hours = dur / 60,
                       color = fst (getProjectColor st p)\<rparr>
           | Some a \<Rightarrow> a\<lparr>hours := hours a + dur / 60\<rparr>)"
  using assms
  by (simp add: trackTask_def Let_def case_prod_beta getProjectColor_frame map_of_map_entry
        update_conv' split: option.splits)

lemma trackTask_others:
  assumes "parseProjectTask summ = (p, tk)" and "k \<noteq> taskKeyOf p tk"
  shows "map_of (projectTaskMap (trackTask summ dur st)) k = map_of (projectTaskMap st) k"
  using assms
  by (simp add: trackTask_def Let_def case_prod_beta getProjectColor_frame map_of_map_entry
        update_conv' split: option.splits)

subsection \<open>Colors\<close>

lemma PROJECT_COLORS_nth: "PROJECT_COLORS ! (i mod length PROJECT_COLORS) \<in> set PROJECT_COLORS"
  by (rule nth_mem) (simp add: PROJECT_COLORS_def)

lemma getProjectColor_palette:
  assumes "paletteOnly st" and "\<not> inherited p"
  shows "\<exists>c \<in> set PROJECT_COLORS. fst (getProjectColor st p) = Color c
            \<and> projectColorMap (snd (getProjectColor st p)) p = Some c"
  using assms PROJECT_COLORS_nth [of "nextColorIndex st"]
  by (auto simp: getProjectColor_def paletteOnly_def Let_def split: option.splits)

lemma getProjectColor_paletteOnly:
  assumes "paletteOnly st"
  shows "paletteOnly (snd (getProjectColor st p))"
  using assms PROJECT_COLORS_nth [of "nextColorIndex st"]
  by (auto simp: getProjectColor_def paletteOnly_def Let_def split: option.splits)

text \<open>A name not seen before takes the color at the counter: what a pass hands out depends
  on the color map and the counter it starts from.\<close>

lemma getProjectColor_fresh:
  "\<not> inherited p \<Longrightarrow> projectColorMap st p = None \<Longrightarrow>
     fst (getProjectColor st p) = Color (PROJECT_COLORS ! (nextColorIndex st mod length PROJECT_COLORS))
     \<and> nextColorIndex (snd (getProjectColor st p)) = nextColorIndex st + 1"
  by (simp add: getProjectColor_def Let_def)

lemma getProjectColor_seen:
  "\<not> inherited p \<Longrightarrow> projectColorMap st p = Some c \<Longrightarrow> getProjectColor st p = (Color c, st)"
  by (simp add: getProjectColor_def)

lemma getProjectColor_inherited:
  "inherited p \<Longrightarrow> getProjectColor st p = (Inherited p, st)"
  by (simp add: getProjectColor_def)

lemma paletteOnly_init: "paletteOnly (initAggregates e cfg dates)"
  by (simp add: paletteOnly_def initAggregates_def)

lemma paletteOnly_trackFungible:
  assumes "paletteOnly st"
  shows "paletteOnly (trackFungible cal cid ov st)"
proof (cases "inherited cid")
  case True
  then show ?thesis using assms by (simp add: trackFungible_def)
next
  case False
  note cid = this
  show ?thesis
  proof (cases "map_of (fungibleTimeMap st) cid")
    case None
    let ?g = "getProjectColor st (calSummary cal)"
    have p: "paletteOnly (snd ?g)"
      using getProjectColor_paletteOnly [OF assms] by simp
    have c: "\<not> inherited (calSummary cal) \<Longrightarrow> \<exists>c \<in> set PROJECT_COLORS. fst ?g = Color c"
      using getProjectColor_palette [OF assms] by blast
    show ?thesis
      using None cid p c
      by (auto simp: trackFungible_def Let_def case_prod_beta paletteOnly_def map_of_map_entry
            update_conv' getProjectColor_frame split: option.splits if_splits)
  next
    case (Some f)
    then show ?thesis
      using assms cid
      by (auto simp: trackFungible_def Let_def paletteOnly_def map_of_map_entry
            split: option.splits if_splits)
  qed
qed

lemma paletteOnly_trackTask:
  assumes "paletteOnly st"
  shows "paletteOnly (trackTask summ dur st)"
proof -
  obtain p tk where pt: "parseProjectTask summ = (p, tk)" by (cases "parseProjectTask summ")
  have "paletteOnly (snd (getProjectColor st p))"
    using getProjectColor_paletteOnly [OF assms] by simp
  then show ?thesis
    using assms
    by (auto simp: trackTask_def pt Let_def case_prod_beta paletteOnly_def getProjectColor_frame
          split: option.splits)
qed

lemma paletteOnly_frame:
  "paletteOnly (deductFungible k cap ov st) = paletteOnly st"
  "paletteOnly (deductTask k cap ov st) = paletteOnly st"
  "paletteOnly (addDailyDetail k d st) = paletteOnly st"
  by (simp_all add: paletteOnly_def deductFungible_def deductTask_def addDailyDetail_def)

lemma paletteOnly_processEvent:
  assumes "paletteOnly st"
  shows "paletteOnly (processEvent e cfg cals st ev)"
proof -
  have f: "paletteOnly (snd (fungibleBranch k cap calendar cid ov st))" for k cap calendar cid ov
    using assms
    by (simp add: fungibleBranch_def paletteOnly_frame paletteOnly_trackFungible
          split: option.splits)
  have t: "paletteOnly (snd (taskBranch k cap summ dur ov st))" for k cap summ dur ov
    using assms
    by (simp add: taskBranch_def Let_def paletteOnly_frame paletteOnly_trackTask)
  show ?thesis
    using assms f t
    by (simp add: processEvent_def Let_def case_prod_beta paletteOnly_frame
          split: option.splits CalendarCategory.splits)
qed

lemma paletteOnly_processEvents:
  "paletteOnly st \<Longrightarrow> paletteOnly (processEvents e cfg cals st evs)"
  by (induction evs arbitrary: st) (simp_all add: paletteOnly_processEvent)

lemma trackFungible_entry:
  "\<not> inherited cid \<Longrightarrow>
   map_of (fungibleTimeMap (trackFungible cal cid ov st)) cid =
     Some (case map_of (fungibleTimeMap st) cid of
             None \<Rightarrow> \<lparr>calendarSummary = calSummary cal,
                       feTotalHours = n_add (Num 0) (n_div ov (Num 60)),
                       feColor = fst (getProjectColor st (calSummary cal))\<rparr>
           | Some f \<Rightarrow> f\<lparr>feTotalHours := n_add (feTotalHours f) (n_div ov (Num 60))\<rparr>)"
  by (simp add: trackFungible_def Let_def case_prod_beta getProjectColor_frame map_of_map_entry
        update_conv' split: option.splits)

lemma trackFungible_color:
  "\<not> inherited cid \<Longrightarrow> \<not> inherited (calSummary cal) \<Longrightarrow> map_of (fungibleTimeMap st) cid = None \<Longrightarrow>
     \<exists>c. fst (getProjectColor st (calSummary cal)) = Color c
        \<and> projectColorMap (trackFungible cal cid ov st) (calSummary cal) = Some c"
  by (simp add: trackFungible_def Let_def case_prod_beta getProjectColor_def split: option.splits)

subsection \<open>The events of a run\<close>

lemma collectRelevantEvents_source:
  "collectRelevantEvents cats fetch cals = Inr evs \<Longrightarrow> ev \<in> set evs \<Longrightarrow>
     (\<exists>c \<in> set cals. calId c = calendarId ev)
     \<and> (calendarCategory ev = Fungible \<or> calendarCategory ev = Task)"
proof (induction cals arbitrary: evs)
  case Nil
  then show ?case by simp
next
  case (Cons cal cals)
  then show ?case
    by (fastforce split: option.splits if_splits sum.splits)
qed

subsection \<open>Evaluating a run\<close>

lemma datesFrom_single: "datesFrom d d = [d]"
  by (simp add: datesFrom.simps [of d d] datesFrom.simps [of "d + 1" d])


text \<open>The example environment, field by field.\<close>

lemma utc_fields:
  "zoneDate utc tz t = t div 86400000"
  "zoneClock utc tz t = twoDigits ((t mod 86400000) div 3600000) @ '':'' @ twoDigits ((t mod 3600000) div 60000)"
  "getDay utc t = nat ((t div 86400000 + 4) mod 7)"
  "localNoon utc d = d * 86400000 + 43200000"
  "localeCompare utc = compareStr"
  "jsNumber utc = numberOfDigits"
  by (simp_all add: utc_def)

text \<open>The times of the examples, parsed.\<close>

lemma parseTimeToMinutes_utc:
  "parseTimeToMinutes utc [] = NaN"
  "parseTimeToMinutes utc ''08:00'' = Num 480"
  "parseTimeToMinutes utc ''08:30'' = Num 510"
  "parseTimeToMinutes utc ''09:00'' = Num 540"
  "parseTimeToMinutes utc ''10:00'' = Num 600"
  "parseTimeToMinutes utc ''11:00'' = Num 660"
  "parseTimeToMinutes utc ''12:00'' = Num 720"
  "parseTimeToMinutes utc ''13:00'' = Num 780"
  "parseTimeToMinutes utc ''17:00'' = Num 1020"
  "parseTimeToMinutes utc ''18:00'' = Num 1080"
  "parseTimeToMinutes utc ''20:00'' = Num 1200"
  "parseTimeToMinutes utc ''21:00'' = Num 1260"
  by (simp_all add: parseTimeToMinutes_def utc_fields numberOfDigits_def digitValue_def trim_def isSpace_def)

lemmas run_defs = processCalendarData_def computeReport_def getDatesInRange_def
  initAggregates_def initDay_def dayWorkHours_def isWeekend_def formatDateToYMD_def
  parseTimeToMinutes_utc processEvent_def workHoursOverlapMinutes_def
  calculateWorkHoursOverlap_def fungibleBranch_def deductFungible_def trackFungible_def
  taskBranch_def deductTask_def trackTask_def addDailyDetail_def getProjectColor_def
  PROJECT_COLORS_def finalDailyDetails_def finalFungibleSummaries_def finalProjectSummaries_def
  sortedProjectTasks_def sortBy_def dayAvailability_def orElse_def notGreater_def
  twoDigits_def trim_def isSpace_def digitValue_def
  inherited_def objectPrototypeNames_def ownEntries_def arrayIndex_def
  utc_fields workday_def calendarOf_def eventAt_def signedIn_def noVariables_def atClock_def Let_def

lemma utc_noon: "zoneDate utc tz (localNoon utc d) = d"
  by (simp add: utc_fields)

lemma datesFrom_set: "set (datesFrom a b) = {a..b}"
proof (induction a b rule: datesFrom.induct)
  case (1 currentDate lastDate)
  show ?case
  proof (cases "currentDate \<le> lastDate")
    case True
    then show ?thesis
      using 1 by (subst datesFrom.simps) auto
  next
    case False
    then show ?thesis
      by (subst datesFrom.simps) simp
  qed
qed

text \<open>The dates that have a capacity record, at any point of the pass.\<close>

lemma capacity_record_keys:
  "dom (dailyAvailabilityMap
          (processEvents e cfg cals
             (initAggregates e cfg (getDatesInRange e (startDate cfg) (endDate cfg) (timezone cfg))) evs))
     = (\<lambda>d. zoneDate e (timezone cfg) (localNoon e d)) ` {startDate cfg..endDate cfg}"
  by (simp add: processEvents_dom initAggregates_def initDailyAvailabilityMap_dom getDatesInRange_def
        datesFrom_set formatDateToYMD_def image_image)

subsection \<open>Runs\<close>

lemma n_add_zero: "n_add x (Num 0) = x"
  by (cases x) simp_all

text \<open>What a run reports does not depend on what the variables held before, and a run
  that reaches the pass leaves the same variables whatever they held.\<close>

lemma computeReport_fst:
  "fst (computeReport e cfg cals cats fetch vars) = fst (computeReport e cfg cals cats fetch vars')"
  by (simp add: computeReport_result)

lemma computeReport_snd:
  "collectRelevantEvents cats fetch cals = Inr evs \<Longrightarrow>
     snd (computeReport e cfg cals cats fetch vars) =
       processEvents e cfg cals
         (initAggregates e cfg (getDatesInRange e (startDate cfg) (endDate cfg) (timezone cfg))) evs"
  by (simp add: computeReport_def Let_def declarations_overwrite split: sum.splits)

lemma computeReport_reported:
  "fst (computeReport e cfg cals cats fetch vars) = Inr r \<Longrightarrow>
     \<exists>evs. collectRelevantEvents cats fetch cals = Inr evs"
  by (auto simp: computeReport_result Let_def split: sum.splits)

lemma computeReport_again:
  "computeReport e cfg cals cats fetch (snd (computeReport e cfg cals cats fetch vars))
     = computeReport e cfg cals cats fetch vars"
proof (cases "collectRelevantEvents cats fetch cals")
  case (Inl err)
  then show ?thesis
    by (simp add: computeReport_def Let_def)
next
  case (Inr evs)
  have "computeReport e cfg cals cats fetch v = computeReport e cfg cals cats fetch vars" for v
    by (simp add: computeReport_def Let_def declarations_overwrite Inr split: sum.splits)
  then show ?thesis .
qed

text \<open>The pass itself does depend on the variables it starts from: with the counter left
  at 5 the first calendar takes the sixth color.\<close>

lemma pass_reads_color_counter:
  "fungibleTimeMap
     (processEvents utc (workday (4/5) 4 4) [calendarOf ''F'']
        ((initAggregates utc (workday (4/5) 4 4) [localNoon utc 4])\<lparr>nextColorIndex := 5\<rparr>)
        [\<lparr>event = eventAt ''Lunch'' (atClock 4 12 0) (atClock 4 13 0),
          calendarId = ''F'', calendarCategory = Fungible\<rparr>])
     = [(''F'', \<lparr>calendarSummary = ''F'', feTotalHours = Num 1, feColor = Color ''#FF9F40''\<rparr>)]"
  by (simp add: run_defs)

text \<open>For work windows whose end is after their start and a buffer factor in \<open>(0, 1]\<close>,
  every reported day has \<open>0 \<le> availableHours \<le> totalHours\<close>.\<close>

lemma valid_windows_availableHours_bounded:
  assumes wd: "n_lt (parseTimeToMinutes e (weekdayStartTime cfg)) (parseTimeToMinutes e (weekdayEndTime cfg))"
    and we: "n_lt (parseTimeToMinutes e (weekendStartTime cfg)) (parseTimeToMinutes e (weekendEndTime cfg))"
    and b: "0 < timeBufferFactor cfg" "timeBufferFactor cfg \<le> 1"
    and s: "isSignedIn s"
    and r: "processedData (processCalendarData e cfg cals cats fetch s) = Some r"
    and d: "d \<in> set (dailyAvailability r)"
  shows "\<exists>a t. availableHours d = Num a \<and> totalHours d = Num t \<and> 0 \<le> a \<and> a \<le> t"
proof -
  define P where "P = (\<lambda>c :: DayCapacity. \<exists>a t f. availableMinutes c = Num a
      \<and> totalMinutes c = Num t \<and> fungibleMinutes c = Num f \<and> a \<le> t - f)"
  let ?dates = "getDatesInRange e (startDate cfg) (endDate cfg) (timezone cfg)"
  obtain evs where fda: "finalDailyAvailability e cfg
      (processEvents e cfg cals (initAggregates e cfg ?dates) evs) ?dates = Inr (dailyAvailability r)"
    using computeReport_daily [OF processCalendarData_report [OF s r]] by blast
  obtain k c where c: "dailyAvailabilityMap
      (processEvents e cfg cals (initAggregates e cfg ?dates) evs) k = Some c"
    and x: "d = dayAvailability k c"
    using finalDailyAvailability_mem [OF fda d] by blast
  have day: "P (snd (initDay e cfg i))" for i
  proof -
    obtain t where t: "0 < t" "totalMinutes (snd (initDay e cfg i)) = Num t"
      "availableMinutes (snd (initDay e cfg i)) = Num (t * timeBufferFactor cfg)"
      "fungibleMinutes (snd (initDay e cfg i)) = Num 0"
      using initDay_valid [OF wd we b(1)] by blast
    have "t * timeBufferFactor cfg \<le> t"
      using t(1) b by (simp add: mult_left_le)
    with t show ?thesis by (simp add: P_def)
  qed
  have init: "\<forall>k c. dailyAvailabilityMap (initAggregates e cfg ?dates) k = Some c \<longrightarrow> P c"
    using initDailyAvailabilityMap_lookup [of e cfg Map.empty ?dates] day
    by (fastforce simp: initAggregates_def)
  have step_f: "\<forall>c x. P c \<longrightarrow> (0::rat) < x \<longrightarrow>
      P (c\<lparr>fungibleMinutes := n_add (fungibleMinutes c) (Num x),
           availableMinutes := n_sub (availableMinutes c) (Num x)\<rparr>)"
    by (auto simp: P_def)
  have step_t: "\<forall>c x. P c \<longrightarrow> (0::rat) < x \<longrightarrow>
      P (c\<lparr>taskMinutes := n_add (taskMinutes c) (Num x),
           availableMinutes := n_sub (availableMinutes c) (Num x)\<rparr>)"
    by (auto simp: P_def)
  have "\<forall>k c. dailyAvailabilityMap (processEvents e cfg cals (initAggregates e cfg ?dates) evs) k = Some c
          \<longrightarrow> P c"
    by (rule processEvents_capacity_invariant [OF step_f step_t init])
  with c have "P c" by blast
  then show ?thesis
    by (auto simp: P_def x dayAvailability_def Let_def max_def)
qed

text \<open>A Fungible event with overlap 0, for a calendar whose id and name
  \<open>Object.prototype\<close> does not define: a new entry has the calendar's name, 0 hours and a
  color of the palette, recorded for that name in the color map; an existing entry is kept
  as it is.\<close>

lemma fungible_zero_overlap_entry:
  assumes reach: "st = processEvents e cfg cals (initAggregates e cfg dates) evs"
    and cat: "calendarCategory ev = Fungible"
    and s: "startDateTime (event ev) = Some s" and t: "endDateTime (event ev) = Some t"
    and inrange: "dailyAvailabilityMap st (formatDateToYMD e s (timezone cfg)) = Some cap"
    and cal: "find (\<lambda>c. calId c = calendarId ev) cals = Some cal"
    and zero: "workHoursOverlapMinutes e cfg s t = Num 0"
    and own: "\<not> inherited (calendarId ev)" "\<not> inherited (calSummary cal)"
  shows "(\<exists>f. map_of (fungibleTimeMap (processEvent e cfg cals st ev)) (calendarId ev) = Some f
            \<and> (case map_of (fungibleTimeMap st) (calendarId ev) of
                 None \<Rightarrow> calendarSummary f = calSummary cal \<and> feTotalHours f = Num 0
                         \<and> (\<exists>c \<in> set PROJECT_COLORS. feColor f = Color c
                               \<and> projectColorMap (processEvent e cfg cals st ev) (calSummary cal) = Some c)
               | Some f0 \<Rightarrow> f = f0))
       \<and> dailyAvailabilityMap (processEvent e cfg cals st ev) = dailyAvailabilityMap st
       \<and> dailyDetailsMap (processEvent e cfg cals st ev) = dailyDetailsMap st"
proof -
  have step: "processEvent e cfg cals st ev = trackFungible cal (calendarId ev) (Num 0) st"
    by (simp add: processEvent_fungible [OF cat s t inrange] cal zero Let_def fungibleBranch_def
          addDailyDetail_def)
  have pal: "paletteOnly st"
    unfolding reach by (intro paletteOnly_processEvents paletteOnly_init)
  obtain f where f: "map_of (fungibleTimeMap (trackFungible cal (calendarId ev) (Num 0) st)) (calendarId ev)
      = Some f"
    by (simp add: trackFungible_entry [OF own(1)])
  have new: "calendarSummary f = calSummary cal \<and> feTotalHours f = Num 0
      \<and> (\<exists>c \<in> set PROJECT_COLORS. feColor f = Color c
            \<and> projectColorMap (trackFungible cal (calendarId ev) (Num 0) st) (calSummary cal) = Some c)"
    if none: "map_of (fungibleTimeMap st) (calendarId ev) = None"
  proof -
    obtain c where c: "c \<in> set PROJECT_COLORS" "fst (getProjectColor st (calSummary cal)) = Color c"
      using getProjectColor_palette [OF pal own(2)] by blast
    obtain c' where c': "fst (getProjectColor st (calSummary cal)) = Color c'"
      "projectColorMap (trackFungible cal (calendarId ev) (Num 0) st) (calSummary cal) = Some c'"
      using trackFungible_color [OF own none] by blast
    from c c' have "c' = c" by simp
    with c c' f none show ?thesis
      by (auto simp: trackFungible_entry [OF own(1)])
  qed
  have old: "f = f0" if "map_of (fungibleTimeMap st) (calendarId ev) = Some f0" for f0
    using f that by (simp add: trackFungible_entry [OF own(1)] n_add_zero)
  show ?thesis
    unfolding step using f new old by (simp add: trackFungible_frame split: option.splits)
qed

section \<open>The claims\<close>

text \<open>
  C1. Scenario B: a weekday with work hours 09:00--17:00, buffer factor 0.8 and one
  Fungible-category event 10:00--11:00 local time. The run gives \<open>fungibleMinutes = 60\<close> and
  a reported \<open>availableHours = 5.4\<close>, and it reports the chart baseline \<open>totalHours\<close> as 7,
  where the baseline after the buffer is 5.4: \<open>totalMinutes\<close> is 480, the buffer divided
  out again.
\<close>

theorem scenario_B_totalHours:
  "processCalendarData utc (workday (4/5) 4 4) [calendarOf ''F'']
      [''F'' \<mapsto> Fungible] (\<lambda>c. Inr [eventAt ''Lunch'' (atClock 4 10 0) (atClock 4 11 0)]) signedIn
     = \<lparr>isSignedIn = True, isLoading = False, error = None,
        processedData =
          Some \<lparr>dailyAvailability = [\<lparr>date = 4, availableHours = Num (27 / 5), totalHours = Num 7\<rparr>],
                projectTasks = [], projectSummaries = [],
                fungibleTimeSummary =
                  [\<lparr>fsCalendarSummary = ''F'', fsTotalHours = Num 1, fsColor = Color ''#FF6384'',
                    fsProject = ''F''\<rparr>],
                dailyDetails = [\<lparr>ddDate = 4, events =
                  [\<lparr>dedSummary = ''Lunch'', calendarName = ''F'', category = Fungible,
                    startTime = ''10:00'', endTime = ''11:00'',
                    duration = 1, impact = reduces_available\<rparr>]\<rparr>]\<rparr>,
        variables =
          \<lparr>dailyAvailabilityMap =
             [4 \<mapsto> \<lparr>availableMinutes = Num 324, totalMinutes = Num 480,
                    fungibleMinutes = Num 60, taskMinutes = Num 0\<rparr>],
           projectTaskMap = [],
           fungibleTimeMap =
             [(''F'', \<lparr>calendarSummary = ''F'', feTotalHours = Num 1, feColor = Color ''#FF6384''\<rparr>)],
           dailyDetailsMap =
             [4 \<mapsto> [\<lparr>dedSummary = ''Lunch'', calendarName = ''F'', category = Fungible,
                     startTime = ''10:00'', endTime = ''11:00'',
                     duration = 1, impact = reduces_available\<rparr>]],
           projectColorMap = [''F'' \<mapsto> ''#FF6384''],
           nextColorIndex = 1\<rparr>\<rparr>
   \<and> Num 7 \<noteq> Num (27 / 5)"
  by (simp add: run_defs datesFrom_single)







text \<open>
  C4. An event summary with two colons, \<open>Acme: Draft: v2\<close>: the project is \<open>Acme\<close>, the
  text before the first colon, and the task is \<open>Draft\<close>, the piece between the two colons,
  where the remainder after the first colon is \<open>Draft: v2\<close>.
\<close>

theorem summary_two_colons_task_truncated:
  "parseProjectTask (Some ''Acme: Draft: v2'') = (''Acme'', ''Draft'')
   \<and> trim (tl (dropWhile (\<lambda>c. c \<noteq> CHR '':'') ''Acme: Draft: v2'')) = ''Draft: v2''
   \<and> ''Draft'' \<noteq> ''Draft: v2''"
  by (simp add: parseProjectTask_def splitLimit_def trim_def isSpace_def orElse_def)

text \<open>
  C5 (amended). The overlap of an event with the work window is
  \<open>max(0, min(eventEndClock, windowEnd) - max(eventStartClock, windowStart))\<close> in minutes,
  where \<open>eventStartClock\<close> and \<open>eventEndClock\<close> are the clock times of the event's start and
  end in the configured zone, whatever the date of the end. It is never negative. For
  times that parse to numbers it is 0 when the end clock is not after the window start or
  the start clock is not before the window end, and it is the full window duration when
  the start clock is not after the window start and the end clock is not before the
  window end, as for an event that contains the window and ends on its start date. (The
  date the function analyses is the local date of the event's start, so the test for
  another day never fires.)
\<close>

theorem calculateWorkHoursOverlap_clock_formula:
  "calculateWorkHoursOverlap e s t ws we tz =
      Math_max (Num 0)
        (n_sub (Math_min (parseTimeToMinutes e (zoneClock e tz t)) (parseTimeToMinutes e we))
               (Math_max (parseTimeToMinutes e (zoneClock e tz s)) (parseTimeToMinutes e ws)))
   \<and> \<not> n_lt (calculateWorkHoursOverlap e s t ws we tz) (Num 0)
   \<and> (\<forall>a b c d.
         parseTimeToMinutes e (zoneClock e tz s) = Num a
         \<and> parseTimeToMinutes e (zoneClock e tz t) = Num b
         \<and> parseTimeToMinutes e ws = Num c \<and> parseTimeToMinutes e we = Num d \<longrightarrow>
           calculateWorkHoursOverlap e s t ws we tz = Num (max 0 (min b d - max a c))
           \<and> (b \<le> c \<or> d \<le> a \<longrightarrow> calculateWorkHoursOverlap e s t ws we tz = Num 0)
           \<and> (a \<le> c \<and> d \<le> b \<and> c \<le> d \<longrightarrow>
                calculateWorkHoursOverlap e s t ws we tz = Num (d - c)))"
proof -
  let ?es = "parseTimeToMinutes e (zoneClock e tz s)"
  let ?ee = "parseTimeToMinutes e (zoneClock e tz t)"
  let ?ws = "parseTimeToMinutes e ws"
  let ?we = "parseTimeToMinutes e we"
  have calc: "calculateWorkHoursOverlap e s t ws we tz =
      (if n_ge (Math_max ?es ?ws) (Math_min ?ee ?we) then Num 0
       else n_sub (Math_min ?ee ?we) (Math_max ?es ?ws))"
    by (simp add: calculateWorkHoursOverlap_def formatDateToYMD_def Let_def)
  show ?thesis
    unfolding calc
    by (cases ?es; cases ?ee; cases ?ws; cases ?we) (auto simp: n_ge_def)
qed

theorem calculateWorkHoursOverlap_clock_formula_witness:
  "calculateWorkHoursOverlap utc (atClock 4 8 0) (atClock 4 18 0) ''09:00'' ''17:00'' ''UTC'' = Num 480
   \<and> calculateWorkHoursOverlap utc (atClock 4 20 0) (atClock 4 21 0) ''09:00'' ''17:00'' ''UTC'' = Num 0"
  using calculateWorkHoursOverlap_clock_formula [of utc "atClock 4 8 0" "atClock 4 18 0"
      "''09:00''" "''17:00''" "''UTC''"]
    calculateWorkHoursOverlap_clock_formula [of utc "atClock 4 20 0" "atClock 4 21 0"
      "''09:00''" "''17:00''" "''UTC''"]
  by (simp add: utc_fields atClock_def twoDigits_def parseTimeToMinutes_utc)

text \<open>C5, as stated, fails: an event from 08:00 to 10:00 of the next day contains the
  window 09:00--17:00 of its start date, and its overlap is 60 minutes, not the 480 of the
  window.\<close>

theorem overnight_event_counterexample:
  "formatDateToYMD utc (atClock 4 8 0) ''UTC'' = 4
   \<and> atClock 4 8 0 \<le> atClock 4 9 0 \<and> atClock 4 17 0 \<le> atClock 5 10 0
   \<and> calculateWorkHoursOverlap utc (atClock 4 8 0) (atClock 5 10 0) ''09:00'' ''17:00'' ''UTC'' = Num 60
   \<and> n_sub (parseTimeToMinutes utc ''17:00'') (parseTimeToMinutes utc ''09:00'') = Num 480
   \<and> Num 60 \<noteq> Num 480"
  by (simp add: run_defs)

text \<open>
  C6 (amended). Every non-blocked Task-category event whose timezone-local start date has
  a per-day capacity record contributes its full duration (end instant minus start
  instant), not merely its work-hours overlap, to its (project, task) bucket, and to no
  other bucket; when its overlap is 0 it still contributes the full duration and changes
  no day's capacity. An event whose local start date has no capacity record contributes
  nothing. Where the configured zone dates the browser's local noon of every date on that
  date, the dates with a capacity record are the dates from \<open>startDate\<close> to \<open>endDate\<close>.
\<close>

theorem task_event_full_duration:
  assumes reach: "st = processEvents e cfg cals
                         (initAggregates e cfg
                            (getDatesInRange e (startDate cfg) (endDate cfg) (timezone cfg))) pre"
    and cat: "calendarCategory ev = Task"
    and s: "startDateTime (event ev) = Some s" and t: "endDateTime (event ev) = Some t"
    and nb: "\<not> isBlocked (orElse (map_option toLowerCase (evSummary (event ev))) [])"
    and pt: "parseProjectTask (evSummary (event ev)) = (p, tk)"
  shows "(dailyAvailabilityMap st (formatDateToYMD e s (timezone cfg)) \<noteq> None \<longrightarrow>
            (\<exists>b. map_of (projectTaskMap (processEvent e cfg cals st ev)) (taskKeyOf p tk) = Some b
                \<and> hours b = (case map_of (projectTaskMap st) (taskKeyOf p tk) of
                               None \<Rightarrow> 0 | Some a \<Rightarrow> hours a)
                             + of_int (t - s) / (1000 * 60) / 60)
          \<and> (\<forall>k. k \<noteq> taskKeyOf p tk \<longrightarrow>
                map_of (projectTaskMap (processEvent e cfg cals st ev)) k = map_of (projectTaskMap st) k)
          \<and> (workHoursOverlapMinutes e cfg s t = Num 0 \<longrightarrow>
                dailyAvailabilityMap (processEvent e cfg cals st ev) = dailyAvailabilityMap st))
       \<and> (dailyAvailabilityMap st (formatDateToYMD e s (timezone cfg)) = None \<longrightarrow>
            processEvent e cfg cals st ev = st)
       \<and> ((\<forall>d. zoneDate e (timezone cfg) (localNoon e d) = d) \<longrightarrow>
            (dailyAvailabilityMap st (formatDateToYMD e s (timezone cfg)) \<noteq> None
               \<longleftrightarrow> startDate cfg \<le> formatDateToYMD e s (timezone cfg)
                   \<and> formatDateToYMD e s (timezone cfg) \<le> endDate cfg))"
proof -
  let ?k = "formatDateToYMD e s (timezone cfg)"
  have keys: "(dailyAvailabilityMap st ?k \<noteq> None) = (startDate cfg \<le> ?k \<and> ?k \<le> endDate cfg)"
    if "\<forall>d. zoneDate e (timezone cfg) (localNoon e d) = d"
  proof -
    have "dom (dailyAvailabilityMap st) = {startDate cfg..endDate cfg}"
      unfolding reach capacity_record_keys using that by simp
    then show ?thesis by (auto simp: dom_def)
  qed
  show ?thesis
  proof (cases "dailyAvailabilityMap st ?k")
    case None
    then show ?thesis
      using keys by (simp add: processEvent_not_in_range [OF s])
  next
    case (Some cap)
    let ?ov = "workHoursOverlapMinutes e cfg s t"
    let ?dur = "of_int (t - s) / (1000 * 60) :: rat"
    let ?st1 = "if n_gt ?ov (Num 0) then deductTask ?k cap ?ov st else st"
    have ptm: "projectTaskMap (processEvent e cfg cals st ev)
                 = projectTaskMap (trackTask (evSummary (event ev)) ?dur ?st1)"
      using nb by (simp add: processEvent_task [OF cat s t Some] Let_def taskBranch_def
                     addDailyDetail_frame)
    have st1: "projectTaskMap ?st1 = projectTaskMap st"
      by (simp add: deductTask_def)
    have day: "dailyAvailabilityMap (processEvent e cfg cals st ev) = dailyAvailabilityMap st"
      if "?ov = Num 0"
      using that by (simp add: processEvent_task [OF cat s t Some] Let_def taskBranch_daily
                       addDailyDetail_frame)
    have bucket: "\<exists>b. map_of (projectTaskMap (processEvent e cfg cals st ev)) (taskKeyOf p tk) = Some b
        \<and> hours b = (case map_of (projectTaskMap st) (taskKeyOf p tk) of None \<Rightarrow> 0 | Some a \<Rightarrow> hours a)
                    + ?dur / 60"
      unfolding ptm trackTask_bucket [OF pt] st1 by (simp split: option.splits)
    have others: "\<forall>k. k \<noteq> taskKeyOf p tk \<longrightarrow>
        map_of (projectTaskMap (processEvent e cfg cals st ev)) k = map_of (projectTaskMap st) k"
      unfolding ptm using trackTask_others [OF pt] st1 by simp
    show ?thesis
      using Some bucket others day keys by simp
  qed
qed

theorem task_event_full_duration_witness:
  "map_of (projectTaskMap
        (processEvent utc (workday (4/5) 4 4) [calendarOf ''T'']
           (initAggregates utc (workday (4/5) 4 4) [localNoon utc 4])
           \<lparr>event = eventAt ''Acme: Plan'' (atClock 4 20 0) (atClock 4 21 0),
            calendarId = ''T'', calendarCategory = Task\<rparr>)) ''acme::plan''
     = Some \<lparr>project = ''Acme'', task = ''Plan'', hours = 1, color = Color ''#FF6384''\<rparr>
   \<and> dailyAvailabilityMap
        (processEvent utc (workday (4/5) 4 4) [calendarOf ''T'']
           (initAggregates utc (workday (4/5) 4 4) [localNoon utc 4])
           \<lparr>event = eventAt ''Acme: Plan'' (atClock 4 20 0) (atClock 4 21 0),
            calendarId = ''T'', calendarCategory = Task\<rparr>)
     = dailyAvailabilityMap (initAggregates utc (workday (4/5) 4 4) [localNoon utc 4])"
proof -
  let ?cfg = "workday (4/5) 4 4"
  let ?st = "initAggregates utc ?cfg [localNoon utc 4]"
  let ?ev = "\<lparr>event = eventAt ''Acme: Plan'' (atClock 4 20 0) (atClock 4 21 0),
              calendarId = ''T'', calendarCategory = Task\<rparr>"
  have reach: "?st = processEvents utc ?cfg [calendarOf ''T'']
       (initAggregates utc ?cfg (getDatesInRange utc (startDate ?cfg) (endDate ?cfg) (timezone ?cfg))) []"
    by (simp add: getDatesInRange_def workday_def datesFrom_single)
  have cat: "calendarCategory ?ev = Task"
    and s: "startDateTime (event ?ev) = Some (atClock 4 20 0)"
    and t: "endDateTime (event ?ev) = Some (atClock 4 21 0)"
    by (simp_all add: eventAt_def)
  have nb: "\<not> isBlocked (orElse (map_option toLowerCase (evSummary (event ?ev))) [])"
    by (simp add: eventAt_def isBlocked_def TASK_CALENDAR_BLOCK_KEYWORDS_def orElse_def
          toLowerCase_def toLowerChar_def)
  have pt: "parseProjectTask (evSummary (event ?ev)) = (''Acme'', ''Plan'')"
    by (simp add: eventAt_def parseProjectTask_def splitLimit_def trim_def isSpace_def orElse_def)
  have key: "taskKeyOf ''Acme'' ''Plan'' = ''acme::plan''"
    by (simp add: taskKeyOf_def trim_def isSpace_def toLowerCase_def toLowerChar_def)
  have inrange: "dailyAvailabilityMap ?st (formatDateToYMD utc (atClock 4 20 0) (timezone ?cfg)) \<noteq> None"
    by (simp add: run_defs)
  have zero: "workHoursOverlapMinutes utc ?cfg (atClock 4 20 0) (atClock 4 21 0) = Num 0"
    by (simp add: run_defs)
  have entry: "map_of (projectTaskMap (processEvent utc ?cfg [calendarOf ''T''] ?st ?ev)) ''acme::plan''
      = Some \<lparr>project = ''Acme'', task = ''Plan'', hours = 1, color = Color ''#FF6384''\<rparr>"
    by (simp add: run_defs isBlocked_def TASK_CALENDAR_BLOCK_KEYWORDS_def toLowerCase_def
          toLowerChar_def parseProjectTask_def splitLimit_def taskKeyOf_def)
  show ?thesis
    using task_event_full_duration [OF reach cat s t nb pt] inrange zero entry
    by (simp add: key utc_noon)
qed

text \<open>C6, as stated, fails: a non-blocked Task event of the day after the range, which
  the fetch returns, gives no project/task entry.\<close>

theorem task_event_full_duration_counterexample:
  "processedData (processCalendarData utc (workday (4/5) 4 4) [calendarOf ''T'']
      [''T'' \<mapsto> Task] (\<lambda>c. Inr [eventAt ''Acme: Plan'' (atClock 5 10 0) (atClock 5 11 0)]) signedIn)
     = Some \<lparr>dailyAvailability = [\<lparr>date = 4, availableHours = Num (32 / 5), totalHours = Num 8\<rparr>],
             projectTasks = [], projectSummaries = [], fungibleTimeSummary = [],
             dailyDetails = [\<lparr>ddDate = 4, events = []\<rparr>]\<rparr>"
  by (simp add: run_defs datesFrom_single)

text \<open>
  C7. A work window whose start time field is cleared, with a buffer factor in \<open>(0, 1]\<close>
  and no events: the empty time parses to \<open>NaN\<close>, the validation of the windows lets it
  pass, and the day of the range is reported with \<open>availableHours = NaN\<close> and
  \<open>totalHours = NaN\<close>, for which \<open>0 \<le> availableHours \<le> totalHours\<close> does not hold.
\<close>

theorem cleared_time_field_reports_NaN:
  "processCalendarData utc ((workday (4/5) 4 4)\<lparr>weekdayStartTime := ''''\<rparr>) [] Map.empty
      (\<lambda>c. Inr []) signedIn
     = \<lparr>isSignedIn = True, isLoading = False, error = None,
        processedData =
          Some \<lparr>dailyAvailability = [\<lparr>date = 4, availableHours = NaN, totalHours = NaN\<rparr>],
                projectTasks = [], projectSummaries = [], fungibleTimeSummary = [],
                dailyDetails = [\<lparr>ddDate = 4, events = []\<rparr>]\<rparr>,
        variables =
          \<lparr>dailyAvailabilityMap =
             [4 \<mapsto> \<lparr>availableMinutes = NaN, totalMinutes = NaN,
                    fungibleMinutes = Num 0, taskMinutes = Num 0\<rparr>],
           projectTaskMap = [], fungibleTimeMap = [], dailyDetailsMap = Map.empty,
           projectColorMap = Map.empty, nextColorIndex = 0\<rparr>\<rparr>
   \<and> \<not> n_le (Num 0) NaN \<and> \<not> n_le NaN NaN"
  by (simp add: run_defs datesFrom_single)

text \<open>
  C8. Running the computation twice on identical inputs (same events in the same order,
  same configuration, same category assignments, same browser environment) yields
  identical reports, color assignments included. The maps and the color counter of an
  invocation are variables of the state here, so an invocation starts with whatever the
  last one left in them (an old color map, an advanced counter, old aggregates), and with
  an earlier report or error. The report, the error and the loading flag of a run are the
  same from any such state; a run that produces a report also leaves the same maps and
  counter; and running again from the state a run left gives that state again. This holds
  because every one of the variables is declared anew before the pass reads it.
\<close>

theorem rerun_identical:
  fixes s s' :: AppState
  assumes "isSignedIn s" and "isSignedIn s'"
  shows "processedData (processCalendarData e cfg cals cats fetch s')
           = processedData (processCalendarData e cfg cals cats fetch s)
       \<and> error (processCalendarData e cfg cals cats fetch s')
           = error (processCalendarData e cfg cals cats fetch s)
       \<and> isLoading (processCalendarData e cfg cals cats fetch s')
           = isLoading (processCalendarData e cfg cals cats fetch s)
       \<and> (processedData (processCalendarData e cfg cals cats fetch s) \<noteq> None \<longrightarrow>
            variables (processCalendarData e cfg cals cats fetch s')
              = variables (processCalendarData e cfg cals cats fetch s))
       \<and> processCalendarData e cfg cals cats fetch (processCalendarData e cfg cals cats fetch s)
           = processCalendarData e cfg cals cats fetch s"
proof -
  obtain r v where rv: "computeReport e cfg cals cats fetch (variables s) = (r, v)"
    by (cases "computeReport e cfg cals cats fetch (variables s)")
  obtain r' v' where rv': "computeReport e cfg cals cats fetch (variables s') = (r', v')"
    by (cases "computeReport e cfg cals cats fetch (variables s')")
  have same: "r' = r"
    using computeReport_fst [of e cfg cals cats fetch "variables s'" "variables s"] rv rv' by simp
  have vars: "v' = v" if rx: "r = Inr x" for x
  proof -
    obtain evs where "collectRelevantEvents cats fetch cals = Inr evs"
      using computeReport_reported [of e cfg cals cats fetch "variables s" x] rv rx by auto
    then show ?thesis
      using computeReport_snd [of cats fetch cals evs e cfg "variables s"]
        computeReport_snd [of cats fetch cals evs e cfg "variables s'"] rv rv' by simp
  qed
  have again: "computeReport e cfg cals cats fetch v = (r, v)"
    using computeReport_again [of e cfg cals cats fetch "variables s"] rv by simp
  have first: "processedData (processCalendarData e cfg cals cats fetch s')
           = processedData (processCalendarData e cfg cals cats fetch s)
       \<and> error (processCalendarData e cfg cals cats fetch s')
           = error (processCalendarData e cfg cals cats fetch s)
       \<and> isLoading (processCalendarData e cfg cals cats fetch s')
           = isLoading (processCalendarData e cfg cals cats fetch s)
       \<and> (processedData (processCalendarData e cfg cals cats fetch s) \<noteq> None \<longrightarrow>
            variables (processCalendarData e cfg cals cats fetch s')
              = variables (processCalendarData e cfg cals cats fetch s))"
    using assms rv rv' same vars
    by (cases r) (auto simp: processCalendarData_def Let_def)
  have second: "processCalendarData e cfg cals cats fetch (processCalendarData e cfg cals cats fetch s)
           = processCalendarData e cfg cals cats fetch s"
    using assms(1) rv again
    by (cases s; cases r) (auto simp: processCalendarData_def Let_def)
  show ?thesis
    using first second by simp
qed

theorem rerun_identical_witness:
  "processedData (processCalendarData utc (workday (4/5) 4 4) [calendarOf ''T''] [''T'' \<mapsto> Task]
      (\<lambda>c. Inr [eventAt ''Acme: Plan'' (atClock 4 10 0) (atClock 4 11 0)])
      (signedIn\<lparr>error := Some ''Failed to fetch calendars.'',
                processedData := Some \<lparr>dailyAvailability = [],
                  projectTasks = [\<lparr>project = ''Old'', task = ''Run'', hours = 1,
                                   color = Color ''#1ABC9C''\<rparr>],
                  projectSummaries = [], fungibleTimeSummary = [], dailyDetails = []\<rparr>,
                variables := noVariables\<lparr>projectColorMap := [''Old'' \<mapsto> ''#1ABC9C''],
                                         nextColorIndex := 5\<rparr>\<rparr>))
     = processedData (processCalendarData utc (workday (4/5) 4 4) [calendarOf ''T''] [''T'' \<mapsto> Task]
      (\<lambda>c. Inr [eventAt ''Acme: Plan'' (atClock 4 10 0) (atClock 4 11 0)]) signedIn)
   \<and> processCalendarData utc (workday (4/5) 4 4) [calendarOf ''T''] [''T'' \<mapsto> Task]
      (\<lambda>c. Inr [eventAt ''Acme: Plan'' (atClock 4 10 0) (atClock 4 11 0)])
      (processCalendarData utc (workday (4/5) 4 4) [calendarOf ''T''] [''T'' \<mapsto> Task]
        (\<lambda>c. Inr [eventAt ''Acme: Plan'' (atClock 4 10 0) (atClock 4 11 0)]) signedIn)
     = processCalendarData utc (workday (4/5) 4 4) [calendarOf ''T''] [''T'' \<mapsto> Task]
      (\<lambda>c. Inr [eventAt ''Acme: Plan'' (atClock 4 10 0) (atClock 4 11 0)]) signedIn"
  using rerun_identical [of signedIn
      "signedIn\<lparr>error := Some ''Failed to fetch calendars.'',
                processedData := Some \<lparr>dailyAvailability = [],
                  projectTasks = [\<lparr>project = ''Old'', task = ''Run'', hours = 1,
                                   color = Color ''#1ABC9C''\<rparr>],
                  projectSummaries = [], fungibleTimeSummary = [], dailyDetails = []\<rparr>,
                variables := noVariables\<lparr>projectColorMap := [''Old'' \<mapsto> ''#1ABC9C''],
                                         nextColorIndex := 5\<rparr>\<rparr>"
      utc "workday (4/5) 4 4" "[calendarOf ''T'']" "[''T'' \<mapsto> Task]"
      "\<lambda>c. Inr [eventAt ''Acme: Plan'' (atClock 4 10 0) (atClock 4 11 0)]"]
  by (simp add: signedIn_def)

text \<open>
  C9. Every event that lacks a precise start instant or lacks a precise end instant is
  skipped entirely: processing it leaves every day's capacity, every project/task bucket,
  every fungible summary, every daily detail row and the color map as they were, and the
  pass over an event list gives the same aggregates with or without it.
\<close>

theorem event_without_instant_skipped:
  assumes "startDateTime (event ev) = None \<or> endDateTime (event ev) = None"
  shows "processEvent e cfg cals st ev = st
       \<and> processEvents e cfg cals st (evs1 @ ev # evs2) = processEvents e cfg cals st (evs1 @ evs2)"
  using assms by (simp add: processEvents_append processEvent_skip)

theorem event_without_instant_skipped_witness:
  "processEvent utc (workday (4/5) 4 4) [calendarOf ''T'']
      (initAggregates utc (workday (4/5) 4 4) [localNoon utc 4])
      \<lparr>event = \<lparr>evId = [], evSummary = Some ''Acme: Plan'', startDateTime = Some (atClock 4 10 0),
                 endDateTime = None\<rparr>,
       calendarId = ''T'', calendarCategory = Task\<rparr>
     = initAggregates utc (workday (4/5) 4 4) [localNoon utc 4]"
  using event_without_instant_skipped [of
      "\<lparr>event = \<lparr>evId = [], evSummary = Some ''Acme: Plan'', startDateTime = Some (atClock 4 10 0),
                 endDateTime = None\<rparr>,
        calendarId = ''T'', calendarCategory = Task\<rparr>"
      utc "workday (4/5) 4 4" "[calendarOf ''T'']"
      "initAggregates utc (workday (4/5) 4 4) [localNoon utc 4]" "[]" "[]"]
  by simp

text \<open>
  C10. A Fungible-category calendar named \<open>constructor\<close> with one event outside the work
  hours (overlap 0, impact \<open>ignored\<close>, no capacity change): the calendar gets its entry in
  the fungible summary with 0 hours, and no color of the palette is allocated to it. The
  color of the entry is the property \<open>constructor\<close> that the color map inherits from
  \<open>Object.prototype\<close>; the color map stays empty and the color counter stays 0.
\<close>

theorem fungible_calendar_named_constructor:
  "processCalendarData utc (workday (4/5) 4 4)
      [\<lparr>calId = ''c1'', calSummary = ''constructor'', backgroundColor = []\<rparr>]
      [''c1'' \<mapsto> Fungible] (\<lambda>c. Inr [eventAt ''Dinner'' (atClock 4 20 0) (atClock 4 21 0)]) signedIn
     = \<lparr>isSignedIn = True, isLoading = False, error = None,
        processedData =
          Some \<lparr>dailyAvailability = [\<lparr>date = 4, availableHours = Num (32 / 5), totalHours = Num 8\<rparr>],
                projectTasks = [], projectSummaries = [],
                fungibleTimeSummary =
                  [\<lparr>fsCalendarSummary = ''constructor'', fsTotalHours = Num 0,
                    fsColor = Inherited ''constructor'', fsProject = ''constructor''\<rparr>],
                dailyDetails = [\<lparr>ddDate = 4, events = []\<rparr>]\<rparr>,
        variables =
          \<lparr>dailyAvailabilityMap =
             [4 \<mapsto> \<lparr>availableMinutes = Num 384, totalMinutes = Num 480,
                    fungibleMinutes = Num 0, taskMinutes = Num 0\<rparr>],
           projectTaskMap = [],
           fungibleTimeMap =
             [(''c1'', \<lparr>calendarSummary = ''constructor'', feTotalHours = Num 0,
                        feColor = Inherited ''constructor''\<rparr>)],
           dailyDetailsMap = Map.empty,
           projectColorMap = Map.empty, nextColorIndex = 0\<rparr>\<rparr>
   \<and> Inherited ''constructor'' \<notin> Color ` set PROJECT_COLORS"
  by (simp add: run_defs datesFrom_single)

end
